theory Spec2Isabelle
  imports Complex_Main "HOL-Library.Multiset"
begin

section \<open>JavaScript numbers\<close>

text \<open>
  A JavaScript number is an IEEE 754 double: a finite value, kept as the rational it
  denotes, an infinity or NaN. The sign of zero is not modelled (no operation below
  divides by a computed zero). Every arithmetic operation rounds its exact result to the
  nearest double, a tie going to the even significand.
\<close>

datatype jsnumber = Num rat | PosInfinity | NegInfinity | NaN

text \<open>The number of binary digits of a positive integer, and the powers of two.\<close>

function bitLength :: "int \<Rightarrow> int" where
  "bitLength n = (if n \<le> 0 then 0 else 1 + bitLength (n div 2))"
  by pat_completeness auto
termination
  by (relation "measure nat") auto

function twoToThe :: "int \<Rightarrow> rat" where
  "twoToThe k =
     (if k = 0 then 1 else if k < 0 then twoToThe (k + 1) / 2 else 2 * twoToThe (k - 1))"
  by pat_completeness auto
termination
  by (relation "measure (\<lambda>k. nat \<bar>k\<bar>)") auto

text \<open>The exponent \<open>e\<close> of a non-zero rational: \<open>2^e \<le> |x| < 2^(e+1)\<close>.\<close>

definition binaryExponent :: "rat \<Rightarrow> int" where
  "binaryExponent x =
     (let a = \<bar>x\<bar> in
      if 1 \<le> a then bitLength \<lfloor>a\<rfloor> - 1
      else
        let k = bitLength \<lfloor>1 / a\<rfloor> - 1
        in if twoToThe (- k) \<le> a then - k else - k - 1)"

definition roundHalfEven :: "rat \<Rightarrow> int" where
  "roundHalfEven y =
     (let f = \<lfloor>y\<rfloor>; r = y - of_int f
      in if r < 1 / 2 then f
         else if 1 / 2 < r then f + 1
         else if even f then f else f + 1)"

text \<open>
  Rounding to double: 53 significant bits, the exponent from -1022 (below it the values
  are subnormal, spaced \<open>2^-1074\<close>) to 1023 (above it the result overflows to an
  infinity).
\<close>

definition toDouble :: "rat \<Rightarrow> jsnumber" where
  "toDouble x =
     (if x = 0 then Num 0
      else
        let e = max (binaryExponent x) (- 1022);
            ulp = twoToThe (e - 52);
            n = roundHalfEven (x / ulp)
        in if 1023 < e \<or> (e = 1023 \<and> \<bar>n\<bar> = 2 ^ 53)
           then (if 0 < x then PosInfinity else NegInfinity)
           else Num (of_int n * ulp))"

fun js_sign :: "jsnumber \<Rightarrow> int" where
  "js_sign (Num a) = (if a < 0 then - 1 else 1)"
| "js_sign PosInfinity = 1"
| "js_sign NegInfinity = - 1"
| "js_sign NaN = 1"

definition signedInfinity :: "int \<Rightarrow> jsnumber" where
  "signedInfinity s = (if s < 0 then NegInfinity else PosInfinity)"

fun js_negate :: "jsnumber \<Rightarrow> jsnumber" where
  "js_negate (Num a) = Num (- a)"
| "js_negate PosInfinity = NegInfinity"
| "js_negate NegInfinity = PosInfinity"
| "js_negate NaN = NaN"

text \<open>The operators \<open>+\<close>, \<open>-\<close>, \<open>*\<close> and \<open>/\<close> on numbers.\<close>

fun js_add :: "jsnumber \<Rightarrow> jsnumber \<Rightarrow> jsnumber" where
  "js_add (Num a) (Num b) = toDouble (a + b)"
| "js_add NaN y = NaN"
| "js_add x NaN = NaN"
| "js_add PosInfinity NegInfinity = NaN"
| "js_add NegInfinity PosInfinity = NaN"
| "js_add PosInfinity y = PosInfinity"
| "js_add NegInfinity y = NegInfinity"
| "js_add x PosInfinity = PosInfinity"
| "js_add x NegInfinity = NegInfinity"

definition js_sub :: "jsnumber \<Rightarrow> jsnumber \<Rightarrow> jsnumber" where
  "js_sub x y = js_add x (js_negate y)"

fun js_mul :: "jsnumber \<Rightarrow> jsnumber \<Rightarrow> jsnumber" where
  "js_mul (Num a) (Num b) = toDouble (a * b)"
| "js_mul NaN y = NaN"
| "js_mul x NaN = NaN"
| "js_mul (Num a) y = (if a = 0 then NaN else signedInfinity (js_sign (Num a) * js_sign y))"
| "js_mul x (Num b) = (if b = 0 then NaN else signedInfinity (js_sign x * js_sign (Num b)))"
| "js_mul x y = signedInfinity (js_sign x * js_sign y)"

fun js_div :: "jsnumber \<Rightarrow> jsnumber \<Rightarrow> jsnumber" where
  "js_div (Num a) (Num b) =
     (if b = 0 then (if a = 0 then NaN else signedInfinity (js_sign (Num a)))
      else toDouble (a / b))"
| "js_div NaN y = NaN"
| "js_div x NaN = NaN"
| "js_div (Num a) y = Num 0"
| "js_div x (Num b) = signedInfinity (js_sign x * js_sign (Num b))"
| "js_div x y = NaN"

text \<open>
  \<open>Math.round\<close>: the nearest integer, a tie going towards plus infinity (the result is
  exact). \<open>Math.max\<close> of two numbers.
\<close>

fun Math_round :: "jsnumber \<Rightarrow> jsnumber" where
  "Math_round (Num x) = Num (of_int \<lfloor>x + 1 / 2\<rfloor>)"
| "Math_round x = x"

fun Math_max :: "jsnumber \<Rightarrow> jsnumber \<Rightarrow> jsnumber" where
  "Math_max (Num a) (Num b) = Num (max a b)"
| "Math_max NaN y = NaN"
| "Math_max x NaN = NaN"
| "Math_max PosInfinity y = PosInfinity"
| "Math_max x PosInfinity = PosInfinity"
| "Math_max NegInfinity y = y"
| "Math_max x NegInfinity = x"

section \<open>Data model\<close>

text \<open>
  A timestamp (a valid \<open>Date\<close>) is its time value, a whole number of milliseconds since
  the epoch, which a double holds exactly. Status values, identifiers and messages are
  HOL strings. A backup name, the one string whose characters the controller inspects,
  is a list of UTF-16 code units.
\<close>

type_synonym jsdate = int
type_synonym jsstring = "nat list"

text \<open>
  The backup object handed out by \<open>dbService\<close> (the camelCase result of
  \<open>transformBackupRow\<close>). \<open>None\<close> stands for \<open>null\<close> (and for \<open>undefined\<close> where the
  controller treats both alike). The size in bytes is the non-negative integer of the
  \<open>storage_bytes BIGINT CHECK (storage_bytes >= 0)\<close> column; the size in GB is the
  number derived from it.
\<close>

record backup =
  backupId :: string
  userEmail :: string
  instanceId :: "string option"
  name :: jsstring
  gcpMachineImageName :: string
  sourceInstanceName :: string
  sourceInstanceZone :: string
  storageBytes :: "nat option"
  storageGb :: "jsnumber option"
  status :: string
  errorMessage :: "string option"
  createdAt :: jsdate
  updatedAt :: jsdate

type_synonym store = "backup list"

section \<open>Status Transition Authority\<close>

text \<open>
  The current status handed to the validation: a string, \<open>null\<close> or \<open>undefined\<close>.
\<close>

datatype jsvalue = JsUndefined | JsNull | JsString string

text \<open>
  Modelled from the spec: \<open>isValidStatusTransition\<close> of \<open>services/dbService.js\<close>, a file
  that is not among the sources. It follows the transition table of the spec (section
  4.3), which is also the table \<open>validTransitions\<close> of the test suite: the transition is
  valid when the current status is a key of the table and the new status is among the
  entries of that key; a current status that is not a key is invalid.
\<close>

definition statuses :: "string list" where
  "statuses = [''CREATING'', ''COMPLETED'', ''ERROR'', ''DELETED'']"

definition validTransitions :: "(string \<times> string list) list" where
  "validTransitions =
     [(''CREATING'', [''COMPLETED'', ''ERROR'']),
      (''COMPLETED'', [''DELETED'']),
      (''ERROR'', [''DELETED'']),
      (''DELETED'', [])]"

definition isValidStatusTransition :: "jsvalue \<Rightarrow> string \<Rightarrow> bool" where
  "isValidStatusTransition currentStatus newStatus =
     (case currentStatus of
        JsString s \<Rightarrow>
          (case map_of validTransitions s of
             None \<Rightarrow> False
           | Some allowed \<Rightarrow> newStatus \<in> set allowed)
      | _ \<Rightarrow> False)"

section \<open>Backup Record Store\<close>

text \<open>
  Modelled from the spec: the operations of \<open>services/dbService.js\<close>, a file that is not
  among the sources. They follow section 4.2 of the spec, with the details the test suite
  of the service fixes. An operation \<open>dbService.f\<close> is written \<open>db_f\<close>. The table is the
  list of its rows. The flag \<open>dbOk\<close> says whether the database answers this call; when it
  does not, the operation throws \<open>Database query failed\<close>.
\<close>

datatype db_error =
    InvalidStatus string
  | InvalidTransition string string
  | DatabaseQueryFailed

text \<open>
  Modelled from the spec: the \<open>storageGb\<close> of \<open>transformBackupRow\<close> (missing with
  \<open>dbService.js\<close>), as the tests compute it:
  \<^verbatim>\<open>Math.round((storageBytes / (1024 * 1024 * 1024)) * 100) / 100\<close>.
\<close>

definition bytesToGb :: "nat \<Rightarrow> jsnumber" where
  "bytesToGb bytes =
     js_div (Math_round (js_mul (js_div (toDouble (of_nat bytes)) (Num (1024 * 1024 * 1024)))
                           (Num 100)))
       (Num 100)"

text \<open>
  Modelled from the spec: \<open>getBackupById\<close> (missing with \<open>dbService.js\<close>), the row with
  that id or \<open>null\<close>.
\<close>

definition db_getBackupById :: "bool \<Rightarrow> store \<Rightarrow> string \<Rightarrow> db_error + backup option" where
  "db_getBackupById dbOk st bid =
     (if \<not> dbOk then Inl DatabaseQueryFailed
      else Inr (find (\<lambda>b. backupId b = bid) st))"

text \<open>
  Modelled from the spec: \<open>getBackupsByUser\<close> (missing with \<open>dbService.js\<close>), the
  \<open>listByOwner\<close> of section 4.2; the tests replay its query as
  \<^verbatim>\<open>WHERE user_email = $1 AND status != 'DELETED' ORDER BY created_at DESC\<close>.
\<close>

definition db_getBackupsByUser :: "bool \<Rightarrow> store \<Rightarrow> string \<Rightarrow> db_error + backup list" where
  "db_getBackupsByUser dbOk st email =
     (if \<not> dbOk then Inl DatabaseQueryFailed
      else Inr (sort_key (\<lambda>b. - createdAt b)
                  (filter (\<lambda>b. userEmail b = email \<and> status b \<noteq> ''DELETED'') st)))"

text \<open>
  Modelled from the spec: \<open>createBackup\<close> of the service (missing with \<open>dbService.js\<close>).
  The new row gets the id and the time the store assigns, status CREATING, no size and no
  error message, and is appended to the table.
\<close>

record backup_fields =
  f_name :: jsstring
  f_gcpMachineImageName :: string
  f_sourceInstanceName :: string
  f_sourceInstanceZone :: string
  f_status :: string

definition db_createBackup ::
  "bool \<Rightarrow> string \<Rightarrow> jsdate \<Rightarrow> store \<Rightarrow> string \<Rightarrow> string \<Rightarrow> backup_fields
     \<Rightarrow> (db_error + backup) \<times> store" where
  "db_createBackup dbOk newId now st email instId backupData =
     (if \<not> dbOk then (Inl DatabaseQueryFailed, st)
      else
        let created = \<lparr>backupId = newId, userEmail = email, instanceId = Some instId,
                        name = f_name backupData,
                        gcpMachineImageName = f_gcpMachineImageName backupData,
                        sourceInstanceName = f_sourceInstanceName backupData,
                        sourceInstanceZone = f_sourceInstanceZone backupData,
                        storageBytes = None, storageGb = None,
                        status = ''CREATING'', errorMessage = None,
                        createdAt = now, updatedAt = now\<rparr>
        in (Inr created, st @ [created]))"

text \<open>
  Modelled from the spec: \<open>updateBackupStatus\<close> (missing with \<open>dbService.js\<close>), the
  \<open>updateStatus\<close> of section 4.2. The tests fix the rejections: a missing row gives
  \<open>Database query failed\<close>, an unknown status \<open>Invalid status: X\<close>, an illegal
  transition \<open>Invalid status transition from X to Y\<close>. An argument that is \<open>null\<close> is not
  provided.
\<close>

definition db_updateBackupStatus ::
  "bool \<Rightarrow> jsdate \<Rightarrow> store \<Rightarrow> string \<Rightarrow> string \<Rightarrow> nat option \<Rightarrow> string option
     \<Rightarrow> (db_error + backup) \<times> store" where
  "db_updateBackupStatus dbOk now st bid newStatus newStorageBytes newErrorMessage =
     (if \<not> dbOk then (Inl DatabaseQueryFailed, st)
      else
        (case find (\<lambda>b. backupId b = bid) st of
           None \<Rightarrow> (Inl DatabaseQueryFailed, st)
         | Some current \<Rightarrow>
             if newStatus \<notin> set statuses then (Inl (InvalidStatus newStatus), st)
             else if \<not> isValidStatusTransition (JsString (status current)) newStatus
               then (Inl (InvalidTransition (status current) newStatus), st)
             else
               let bytes = (case newStorageBytes of
                              None \<Rightarrow> storageBytes current | Some v \<Rightarrow> Some v);
                   msg = (case newErrorMessage of
                            None \<Rightarrow> errorMessage current | Some m \<Rightarrow> Some m);
                   updated = current\<lparr>storageBytes := bytes,
                                      storageGb := map_option bytesToGb bytes,
                                      status := newStatus,
                                      errorMessage := msg,
                                      updatedAt := now\<rparr>
               in (Inr updated, map (\<lambda>b. if backupId b = bid then updated else b) st)))"

text \<open>
  Modelled from the spec: \<open>deleteBackup\<close> of the service (missing with \<open>dbService.js\<close>),
  which is \<open>updateStatus(id, DELETED)\<close>.
\<close>

definition db_deleteBackup ::
  "bool \<Rightarrow> jsdate \<Rightarrow> store \<Rightarrow> string \<Rightarrow> (db_error + backup) \<times> store" where
  "db_deleteBackup dbOk now st bid = db_updateBackupStatus dbOk now st bid ''DELETED'' None None"

text \<open>
  Modelled from the spec: \<open>updateBackupStatus\<close> as the controller calls it, with a
  JavaScript number for the size. Section 3 of the spec makes the size a non-negative
  integer and the schema of the table stores it in
  \<open>storage_bytes BIGINT CHECK (storage_bytes >= 0)\<close>, which the storage layer enforces
  (section 6). A number that is such an integer is passed on; for any other number
  (negative, fractional, beyond the 64-bit range, infinite or NaN) the write is refused:
  the service runs its validations and then throws \<open>Database query failed\<close>, the table
  unchanged.
\<close>

definition storageBytesOf :: "jsnumber \<Rightarrow> nat option" where
  "storageBytesOf v =
     (case v of
        Num x \<Rightarrow>
          if 0 \<le> x \<and> x < 2 ^ 63 \<and> x = of_int \<lfloor>x\<rfloor> then Some (nat \<lfloor>x\<rfloor>) else None
      | _ \<Rightarrow> None)"

definition db_updateBackupStatus_js ::
  "bool \<Rightarrow> jsdate \<Rightarrow> store \<Rightarrow> string \<Rightarrow> string \<Rightarrow> jsnumber option \<Rightarrow> string option
     \<Rightarrow> (db_error + backup) \<times> store" where
  "db_updateBackupStatus_js dbOk now st bid newStatus storageBytesArg newErrorMessage =
     (case storageBytesArg of
        None \<Rightarrow> db_updateBackupStatus dbOk now st bid newStatus None newErrorMessage
      | Some v \<Rightarrow>
          (case storageBytesOf v of
             Some n \<Rightarrow> db_updateBackupStatus dbOk now st bid newStatus (Some n) newErrorMessage
           | None \<Rightarrow>
               (case db_updateBackupStatus dbOk now st bid newStatus None newErrorMessage of
                  (Inl e, st') \<Rightarrow> (Inl e, st)
                | (Inr refused, st') \<Rightarrow> (Inl DatabaseQueryFailed, st))))"

section \<open>Backup controller\<close>

text \<open>
  \<open>controllers/backupController.js\<close>. A handler maps the request, the table and the
  outcomes of the external calls it makes to the HTTP response it sends (and, where it
  writes, to the new table). A string taken from the request is \<open>None\<close> when it is
  \<open>undefined\<close> or \<open>null\<close>; JavaScript's \<open>!v\<close> holds for those and for the empty string.
\<close>

datatype body =
    ErrorBody string string
  | BackupsBody "backup list"
  | CreatedBody string backup
  | BackupBody backup jsnumber
  | DeletedBody string backup

record response =
  statusCode :: nat
  responseBody :: body

datatype name_value = NameAbsent | NameNotString | NameString jsstring

record request =
  user_email :: "string option"
  params_id :: "string option"
  body_instanceId :: "string option"
  body_name :: name_value

definition falsy :: "string option \<Rightarrow> bool" where
  "falsy v = (case v of None \<Rightarrow> True | Some s \<Rightarrow> s = [])"

definition orDefault :: "string option \<Rightarrow> string \<Rightarrow> string" where
  "orDefault v d = (if falsy v then d else the v)"

definition errorResponse :: "nat \<Rightarrow> string \<Rightarrow> string \<Rightarrow> response" where
  "errorResponse c e m = \<lparr>statusCode = c, responseBody = ErrorBody e m\<rparr>"

definition serviceUnavailable :: response where
  "serviceUnavailable =
     errorResponse 503 ''Service Unavailable'' ''Database service temporarily unavailable''"

definition emailMissing :: response where
  "emailMissing = errorResponse 400 ''Bad Request'' ''User email not found in request''"

subsection \<open>getBackups\<close>

definition getBackups :: "bool \<Rightarrow> store \<Rightarrow> request \<Rightarrow> response" where
  "getBackups dbOk st req =
     (if falsy (user_email req) then emailMissing
      else
        (case db_getBackupsByUser dbOk st (the (user_email req)) of
           Inl e \<Rightarrow> serviceUnavailable
         | Inr backups \<Rightarrow> \<lparr>statusCode = 200, responseBody = BackupsBody backups\<rparr>))"

subsection \<open>getBackup and the cost of a backup\<close>

text \<open>The literal \<open>2.306\<close> is the double nearest to it.\<close>

definition STORAGE_RATE_PER_GB_HOUR :: jsnumber where
  "STORAGE_RATE_PER_GB_HOUR = toDouble (2306 / 1000)"

text \<open>
  Lines 375 to 389 of the handler: the cost attached to the backup read at wall-clock
  time \<open>now\<close>.
\<close>

definition currentCost :: "jsdate \<Rightarrow> backup \<Rightarrow> jsnumber" where
  "currentCost now b =
     (case storageGb b of
        None \<Rightarrow> Num 0
      | Some gb \<Rightarrow>
          let created = createdAt b;
              endTime = (if status b = ''DELETED'' then updatedAt b else now);
              diffMs = js_sub (Num (of_int endTime)) (Num (of_int created));
              diffHours = Math_max (Num 0) (js_div diffMs (Num (1000 * 60 * 60)));
              cost = js_mul (js_mul gb diffHours) STORAGE_RATE_PER_GB_HOUR
          in js_div (Math_round (js_mul cost (Num 100))) (Num 100))"

definition getBackup :: "bool \<Rightarrow> jsdate \<Rightarrow> store \<Rightarrow> request \<Rightarrow> response" where
  "getBackup dbOk now st req =
     (if falsy (user_email req) then emailMissing
      else if falsy (params_id req)
        then errorResponse 400 ''Bad Request'' ''Backup ID is required''
      else
        (case db_getBackupById dbOk st (the (params_id req)) of
           Inl e \<Rightarrow> serviceUnavailable
         | Inr None \<Rightarrow> errorResponse 404 ''Not Found'' ''Backup not found''
         | Inr (Some b) \<Rightarrow>
             if userEmail b \<noteq> the (user_email req)
               then errorResponse 403 ''Forbidden''
                      ''You do not have permission to access this backup''
             else \<lparr>statusCode = 200, responseBody = BackupBody b (currentCost now b)\<rparr>))"

subsection \<open>deleteBackup\<close>

text \<open>
  An error thrown by \<open>gcpService\<close>: its \<open>error\<close> code and its \<open>message\<close>, either of
  which may be missing. \<open>orDefault\<close> is JavaScript's \<open>v || d\<close> on such a field.
\<close>

record gcp_error =
  error_code :: "string option"
  error_message :: "string option"

datatype call =
    DbGetBackupById string
  | GcpDeleteMachineImage string
  | DbDeleteBackup string

text \<open>
  The handler is given whether the database answers the read (\<open>getOk\<close>) and the soft
  delete (\<open>deleteOk\<close>), and the error that \<open>gcpService.deleteMachineImage\<close> throws, if
  any. It returns the response, the table afterwards and the external calls it made, in
  order.
\<close>

definition deleteBackup ::
  "bool \<Rightarrow> gcp_error option \<Rightarrow> bool \<Rightarrow> jsdate \<Rightarrow> store \<Rightarrow> request
     \<Rightarrow> response \<times> store \<times> call list" where
  "deleteBackup getOk gcpDelete deleteOk now st req =
     (if falsy (user_email req) then (emailMissing, st, [])
      else if falsy (params_id req)
        then (errorResponse 400 ''Bad Request'' ''Backup ID is required'', st, [])
      else
        let bid = the (params_id req) in
        (case db_getBackupById getOk st bid of
           Inl e \<Rightarrow> (serviceUnavailable, st, [DbGetBackupById bid])
         | Inr None \<Rightarrow>
             (errorResponse 404 ''Not Found'' ''Backup not found'', st, [DbGetBackupById bid])
         | Inr (Some b) \<Rightarrow>
             if userEmail b \<noteq> the (user_email req)
               then (errorResponse 403 ''Forbidden''
                       ''You do not have permission to delete this backup'',
                     st, [DbGetBackupById bid])
             else
               (case gcpDelete of
                  Some err \<Rightarrow>
                    (errorResponse 500 (orDefault (error_code err) ''GCP_ERROR'')
                       (orDefault (error_message err) ''Failed to delete machine image''),
                     st,
                     [DbGetBackupById bid, GcpDeleteMachineImage (gcpMachineImageName b)])
                | None \<Rightarrow>
                    (case db_deleteBackup deleteOk now st bid of
                       (Inl e, st') \<Rightarrow>
                         (serviceUnavailable, st',
                          [DbGetBackupById bid, GcpDeleteMachineImage (gcpMachineImageName b),
                           DbDeleteBackup bid])
                     | (Inr deletedBackup, st') \<Rightarrow>
                         (\<lparr>statusCode = 200,
                           responseBody = DeletedBody ''Backup deleted successfully'' deletedBackup\<rparr>,
                          st',
                          [DbGetBackupById bid, GcpDeleteMachineImage (gcpMachineImageName b),
                           DbDeleteBackup bid])))))"

subsection \<open>createBackup\<close>

text \<open>
  \<open>String.prototype.trim\<close> removes the code units of WhiteSpace and LineTerminator from
  both ends: TAB, LF, VT, FF, CR, SP, NBSP, U+1680, U+2000 to U+200A, U+2028, U+2029,
  U+202F, U+205F, U+3000 and U+FEFF.
\<close>

definition isWhiteSpace :: "nat \<Rightarrow> bool" where
  "isWhiteSpace c \<longleftrightarrow>
     c \<in> set [9, 10, 11, 12, 13, 32, 160, 5760, 8232, 8233, 8239, 8287, 12288, 65279] \<or>
     (8192 \<le> c \<and> c \<le> 8202)"

definition trim :: "jsstring \<Rightarrow> jsstring" where
  "trim s = rev (dropWhile isWhiteSpace (rev (dropWhile isWhiteSpace s)))"

text \<open>The regular expression \<^verbatim>\<open>/[^a-zA-Z0-9\-_ ]/\<close>: a code unit it matches.\<close>

definition invalidChar :: "nat \<Rightarrow> bool" where
  "invalidChar c \<longleftrightarrow>
     \<not> ((97 \<le> c \<and> c \<le> 122) \<or> (65 \<le> c \<and> c \<le> 90) \<or> (48 \<le> c \<and> c \<le> 57) \<or>
        c = 45 \<or> c = 95 \<or> c = 32)"

definition invalidCharsRegex_test :: "jsstring \<Rightarrow> bool" where
  "invalidCharsRegex_test s = list_ex invalidChar s"

definition badRequest :: "string \<Rightarrow> response" where
  "badRequest m = errorResponse 400 ''Bad Request'' m"

text \<open>
  Lines 83 to 118: the checks on \<open>req.body.name\<close>, in the order of the source.
  \<open>NameAbsent\<close> is a falsy value other than the empty string (\<open>undefined\<close>, \<open>null\<close>, \<open>0\<close>,
  \<open>false\<close>), \<open>NameNotString\<close> a truthy value that is not a string.
\<close>

definition validateName :: "name_value \<Rightarrow> response + jsstring" where
  "validateName v =
     (case v of
        NameAbsent \<Rightarrow> Inl (badRequest ''Missing required field: name'')
      | NameNotString \<Rightarrow> Inl (badRequest ''Backup name cannot be empty'')
      | NameString nm \<Rightarrow>
          if length (trim nm) = 0 then Inl (badRequest ''Backup name cannot be empty'')
          else if length nm > 100
            then Inl (badRequest ''Backup name cannot exceed 100 characters'')
          else if invalidCharsRegex_test nm
            then Inl (badRequest ''Backup name contains invalid characters'')
          else Inr nm)"

record vm_instance =
  inst_userEmail :: string
  inst_name :: string
  gcpInstanceId :: "string option"
  gcpZone :: "string option"

definition isGcpManaged :: "vm_instance \<Rightarrow> bool" where
  "isGcpManaged inst \<longleftrightarrow> \<not> falsy (gcpInstanceId inst) \<and> \<not> falsy (gcpZone inst)"

text \<open>
  The background work that \<open>createBackup\<close> schedules before it answers: the machine image
  job (backup id, image name, GCP instance id, zone) for a GCP-managed instance, the demo
  completion (backup id, delay in milliseconds) otherwise.
\<close>

datatype job =
    MachineImageJob string string string string
  | DemoJob string jsnumber

text \<open>
  What the handler obtains from outside: the answers of \<open>dbService.getInstanceById\<close> and
  \<open>gcpService.getInstanceStatus\<close>, the image name it derives from the instance id and
  \<open>Date.now()\<close> (lower-cased and sanitised; kept abstract here), whether the insert
  succeeds, the id and the time the store gives the new record, and the value of
  \<open>Math.random()\<close> (a double, at least 0 and below 1) that sets the demo delay.
\<close>

record create_env =
  getInstanceById :: "string \<Rightarrow> db_error + vm_instance option"
  getInstanceStatus :: "string \<Rightarrow> string \<Rightarrow> gcp_error + string"
  generatedImageName :: string
  createOk :: bool
  newBackupId :: string
  createNow :: jsdate
  delayRandom :: jsnumber

definition demoDelay :: "jsnumber \<Rightarrow> jsnumber" where
  "demoDelay random = js_add (Num 3000) (js_mul random (Num 2000))"

definition createBackup ::
  "create_env \<Rightarrow> store \<Rightarrow> request \<Rightarrow> response \<times> store \<times> job option" where
  "createBackup env st req =
     (if falsy (user_email req) then (emailMissing, st, None)
      else if falsy (body_instanceId req)
        then (badRequest ''Missing required field: instanceId'', st, None)
      else
        (case validateName (body_name req) of
           Inl rejection \<Rightarrow> (rejection, st, None)
         | Inr nm \<Rightarrow>
             let email = the (user_email req); instId = the (body_instanceId req) in
             (case getInstanceById env instId of
                Inl e \<Rightarrow> (serviceUnavailable, st, None)
              | Inr None \<Rightarrow>
                  (errorResponse 404 ''Not Found'' ''Source instance not found'', st, None)
              | Inr (Some inst) \<Rightarrow>
                  if inst_userEmail inst \<noteq> email
                    then (errorResponse 403 ''Forbidden''
                            ''You do not have permission to backup this instance'', st, None)
                  else
                    (case (if isGcpManaged inst
                           then getInstanceStatus env (the (gcpInstanceId inst))
                                  (the (gcpZone inst))
                           else Inr []) of
                       Inl err \<Rightarrow>
                         (errorResponse 500 (orDefault (error_code err) ''GCP_ERROR'')
                            (orDefault (error_message err) ''Failed to verify instance in GCP''),
                          st, None)
                     | Inr gcpStatus \<Rightarrow>
                         (case db_createBackup (createOk env) (newBackupId env) (createNow env)
                                 st email instId
                                 \<lparr>f_name = trim nm,
                                  f_gcpMachineImageName = generatedImageName env,
                                  f_sourceInstanceName = inst_name inst,
                                  f_sourceInstanceZone = orDefault (gcpZone inst) ''us-central1-a'',
                                  f_status = ''CREATING''\<rparr> of
                            (Inl e, st') \<Rightarrow> (serviceUnavailable, st', None)
                          | (Inr createdBackup, st') \<Rightarrow>
                              (\<lparr>statusCode = 201,
                                responseBody = CreatedBody
                                  ''Backup creation initiated. This may take several minutes to complete.''
                                  createdBackup\<rparr>,
                               st',
                               Some (if isGcpManaged inst
                                     then MachineImageJob (backupId createdBackup)
                                            (generatedImageName env)
                                            (the (gcpInstanceId inst)) (the (gcpZone inst))
                                     else DemoJob (backupId createdBackup)
                                            (demoDelay (delayRandom env)))))))))"

subsection \<open>The background jobs of createBackup\<close>

text \<open>
  Demo mode (lines 278 to 294): after the delay, the backup is marked COMPLETED with a
  simulated size computed from a second value of \<open>Math.random()\<close>. A failure of the update
  is logged and changes nothing.
\<close>

definition simulatedStorageBytes :: "jsnumber \<Rightarrow> jsnumber" where
  "simulatedStorageBytes random =
     js_mul (js_mul (js_mul (js_add (Num 10) (js_mul random (Num 40))) (Num 1024)) (Num 1024))
       (Num 1024)"

definition runDemoJob :: "bool \<Rightarrow> jsdate \<Rightarrow> jsnumber \<Rightarrow> store \<Rightarrow> string \<Rightarrow> store" where
  "runDemoJob dbOk now random st bid =
     snd (db_updateBackupStatus_js dbOk now st bid ''COMPLETED''
            (Some (simulatedStorageBytes random)) None)"

text \<open>
  The value of \<open>imageDetails.totalStorageBytes\<close>, and one round of the polling loop: the
  time at which it runs, what \<open>gcpService.describeMachineImage\<close> does then (it throws, or
  returns details, \<open>None\<close> being a falsy result) and whether the database answers.
\<close>

datatype storage_value = StorageUndefined | StorageNull | StorageNumber jsnumber

fun storageArgument :: "storage_value \<Rightarrow> jsnumber option" where
  "storageArgument (StorageNumber n) = Some n"
| "storageArgument _ = None"

record attempt =
  attemptTime :: jsdate
  describeResult :: "gcp_error + storage_value option"
  attemptDbOk :: bool

datatype poll_state = StillPolling | Completed

text \<open>
  Lines 234 to 261. The list holds the rounds the environment supplies; when it is used up
  with \<open>completed\<close> still false the loop is still running (\<open>StillPolling\<close>). The inner
  \<open>catch\<close> takes every exception of the round, thrown by \<open>describeMachineImage\<close> or by
  \<open>updateBackupStatus\<close>, and goes on to the next round. Nothing outside the inner \<open>try\<close>
  can throw, so the outer \<open>catch\<close> (lines 262 to 274), which would mark the backup ERROR,
  is never entered and has no branch here.
\<close>

fun pollLoop :: "store \<Rightarrow> string \<Rightarrow> attempt list \<Rightarrow> poll_state \<times> store" where
  "pollLoop st bid [] = (StillPolling, st)"
| "pollLoop st bid (a # rest) =
     (case describeResult a of
        Inl describeError \<Rightarrow> pollLoop st bid rest
      | Inr None \<Rightarrow> pollLoop st bid rest
      | Inr (Some StorageUndefined) \<Rightarrow> pollLoop st bid rest
      | Inr (Some totalStorageBytes) \<Rightarrow>
          (case db_updateBackupStatus_js (attemptDbOk a) (attemptTime a) st bid ''COMPLETED''
                  (storageArgument totalStorageBytes) None of
             (Inl updateError, st') \<Rightarrow> pollLoop st' bid rest
           | (Inr updated, st') \<Rightarrow> (Completed, st')))"

text \<open>
  Lines 199 to 276: \<open>createMachineImage\<close> first; if it throws, the backup is marked ERROR
  with the message of the error and the job ends, otherwise the polling loop runs.
\<close>

datatype job_state = CreationFailed | Polled poll_state

definition runMachineImageJob ::
  "gcp_error option \<Rightarrow> bool \<Rightarrow> jsdate \<Rightarrow> attempt list \<Rightarrow> store \<Rightarrow> string
     \<Rightarrow> job_state \<times> store" where
  "runMachineImageJob createError dbOk now attempts st bid =
     (case createError of
        Some err \<Rightarrow>
          (CreationFailed,
           snd (db_updateBackupStatus_js dbOk now st bid ''ERROR'' None
                  (Some (orDefault (error_message err) ''Failed to create machine image''))))
      | None \<Rightarrow>
          (case pollLoop st bid attempts of (ps, st') \<Rightarrow> (Polled ps, st')))"

section \<open>Sample data\<close>

definition sampleBackup :: backup where
  "sampleBackup =
     \<lparr>backupId = ''bak-1'', userEmail = ''alice@example.com'', instanceId = Some ''inst-1'',
      name = [110, 105, 103, 104, 116, 108, 121],
      gcpMachineImageName = ''backup-inst-1-1700000000000'',
      sourceInstanceName = ''desktop-1'', sourceInstanceZone = ''us-central1-a'',
      storageBytes = Some 10737418240, storageGb = Some (Num 10),
      status = ''COMPLETED'', errorMessage = None,
      createdAt = 0, updatedAt = 0\<rparr>"

definition sampleRequest :: request where
  "sampleRequest =
     \<lparr>user_email = Some ''alice@example.com'', params_id = Some ''bak-1'',
      body_instanceId = None, body_name = NameAbsent\<rparr>"

definition deletedBackup :: backup where
  "deletedBackup = sampleBackup\<lparr>status := ''DELETED'', updatedAt := 7200000\<rparr>"

definition newerBackup :: backup where
  "newerBackup = sampleBackup\<lparr>backupId := ''bak-2'', status := ''CREATING'',
      storageBytes := None, storageGb := None, createdAt := 5000, updatedAt := 5000\<rparr>"

definition otherOwnersBackup :: backup where
  "otherOwnersBackup = sampleBackup\<lparr>backupId := ''bak-3'', userEmail := ''bob@example.com'',
      createdAt := 9000, updatedAt := 9000\<rparr>"

definition sampleStore :: store where
  "sampleStore = [sampleBackup, otherOwnersBackup,
                  deletedBackup\<lparr>backupId := ''bak-4''\<rparr>, newerBackup]"

definition permissionError :: gcp_error where
  "permissionError =
     \<lparr>error_code = Some ''PERMISSION_ERROR'', error_message = Some ''Permission denied''\<rparr>"

definition creatingRequest :: request where
  "creatingRequest =
     \<lparr>user_email = Some ''alice@example.com'', params_id = Some ''bak-2'',
      body_instanceId = None, body_name = NameAbsent\<rparr>"

definition failedDescribe :: attempt where
  "failedDescribe =
     \<lparr>attemptTime = 10000, describeResult = Inl permissionError, attemptDbOk = True\<rparr>"

definition sampleInstance :: vm_instance where
  "sampleInstance =
     \<lparr>inst_userEmail = ''alice@example.com'', inst_name = ''desktop-1'',
      gcpInstanceId = None, gcpZone = None\<rparr>"

definition sampleEnv :: create_env where
  "sampleEnv =
     \<lparr>getInstanceById = (\<lambda>i. if i = ''inst-1'' then Inr (Some sampleInstance) else Inr None),
      getInstanceStatus = (\<lambda>i z. Inr ''RUNNING''),
      generatedImageName = ''backup-inst-1-1700000000100'',
      createOk = True, newBackupId = ''bak-9'', createNow = 70000, delayRandom = Num (1 / 2)\<rparr>"

definition createRequest :: "jsstring \<Rightarrow> request" where
  "createRequest nm =
     \<lparr>user_email = Some ''alice@example.com'', params_id = None,
      body_instanceId = Some ''inst-1'', body_name = NameString nm\<rparr>"

definition paddedName :: jsstring where
  "paddedName = 97 # replicate 100 32"

definition spacedName :: jsstring where
  "spacedName = [32, 110, 105, 103, 104, 116, 108, 121, 32]"

definition createdSample :: backup where
  "createdSample =
     \<lparr>backupId = ''bak-9'', userEmail = ''alice@example.com'', instanceId = Some ''inst-1'',
      name = [110, 105, 103, 104, 116, 108, 121],
      gcpMachineImageName = ''backup-inst-1-1700000000100'',
      sourceInstanceName = ''desktop-1'', sourceInstanceZone = ''us-central1-a'',
      storageBytes = None, storageGb = None,
      status = ''CREATING'', errorMessage = None,
      createdAt = 70000, updatedAt = 70000\<rparr>"


section \<open>Properties\<close>

lemma isValidStatusTransition_string:
  "isValidStatusTransition (JsString c) n \<longleftrightarrow>
     (c = ''CREATING'' \<and> (n = ''COMPLETED'' \<or> n = ''ERROR'')) \<or>
     ((c = ''COMPLETED'' \<or> c = ''ERROR'') \<and> n = ''DELETED'')"
  by (auto simp: isValidStatusTransition_def validTransitions_def)

text \<open>
  C1. Over the 16 ordered pairs of the four statuses, \<open>isValidStatusTransition\<close> holds
  for exactly CREATING to COMPLETED, CREATING to ERROR, COMPLETED to DELETED and ERROR to
  DELETED (so for no same-status pair), and it is false whenever the current status is
  not one of the four statuses, is \<open>null\<close> or is \<open>undefined\<close>.
\<close>

theorem C1_transition_table:
  "length (List.product statuses statuses) = 16 \<and>
   filter (\<lambda>(c, n). isValidStatusTransition (JsString c) n) (List.product statuses statuses) =
     [(''CREATING'', ''COMPLETED''), (''CREATING'', ''ERROR''),
      (''COMPLETED'', ''DELETED''), (''ERROR'', ''DELETED'')] \<and>
   (\<forall>c \<in> set statuses. \<not> isValidStatusTransition (JsString c) c) \<and>
   (\<forall>c n. c \<notin> set statuses \<longrightarrow> \<not> isValidStatusTransition (JsString c) n) \<and>
   (\<forall>n. \<not> isValidStatusTransition JsNull n \<and> \<not> isValidStatusTransition JsUndefined n)"
proof -
  have "length (List.product statuses statuses) = 16"
    by (simp add: statuses_def)
  moreover have "filter (\<lambda>(c, n). isValidStatusTransition (JsString c) n)
        (List.product statuses statuses) =
     [(''CREATING'', ''COMPLETED''), (''CREATING'', ''ERROR''),
      (''COMPLETED'', ''DELETED''), (''ERROR'', ''DELETED'')]"
    by (simp add: statuses_def isValidStatusTransition_string)
  moreover have "\<forall>c \<in> set statuses. \<not> isValidStatusTransition (JsString c) c"
    by (simp add: statuses_def isValidStatusTransition_string)
  moreover have "\<forall>c n. c \<notin> set statuses \<longrightarrow> \<not> isValidStatusTransition (JsString c) n"
    by (auto simp: statuses_def isValidStatusTransition_string)
  moreover have "\<forall>n. \<not> isValidStatusTransition JsNull n \<and> \<not> isValidStatusTransition JsUndefined n"
    by (simp add: isValidStatusTransition_def)
  ultimately show ?thesis by blast
qed

theorem C1_transition_table_witness:
  "''INVALID'' \<notin> set statuses \<and> ''CREATING'' \<in> set statuses \<and>
   \<not> isValidStatusTransition (JsString ''INVALID'') ''COMPLETED'' \<and>
   \<not> isValidStatusTransition (JsString ''CREATING'') ''CREATING''"
proof -
  have a: "''INVALID'' \<notin> set statuses" and b: "''CREATING'' \<in> set statuses"
    by (simp_all add: statuses_def)
  from C1_transition_table a b show ?thesis by blast
qed

lemma getBackup_ok:
  assumes "getBackup dbOk now st req = \<lparr>statusCode = 200, responseBody = BackupBody b c\<rparr>"
  shows "dbOk \<and> \<not> falsy (user_email req) \<and> \<not> falsy (params_id req) \<and>
         find (\<lambda>x. backupId x = the (params_id req)) st = Some b \<and>
         userEmail b = the (user_email req) \<and> c = currentCost now b"
  using assms
  by (auto simp: getBackup_def emailMissing_def errorResponse_def serviceUnavailable_def
        db_getBackupById_def split: if_splits sum.splits option.splits)

lemma currentCost_Some:
  assumes "storageGb b = Some gb"
    and "endTime = (if status b = ''DELETED'' then updatedAt b else now)"
    and "elapsedHours =
           Math_max (Num 0)
             (js_div (js_sub (Num (of_int endTime)) (Num (of_int (createdAt b)))) (Num 3600000))"
    and "product = js_mul (js_mul gb elapsedHours) (toDouble (2306 / 1000))"
  shows "currentCost now b = js_div (Math_round (js_mul product (Num 100))) (Num 100)"
  unfolding assms(2-4)
  by (simp add: currentCost_def assms(1) STORAGE_RATE_PER_GB_HOUR_def Let_def)

lemma currentCost_None: "storageGb b = None \<Longrightarrow> currentCost now b = Num 0"
  by (simp add: currentCost_def)

text \<open>
  Reference points of the rounding to binary64: the doubles written \<open>0.1\<close>, \<open>1/3\<close> and
  \<open>2.306\<close>, and ties above \<open>2^53\<close>, which go to the even neighbour.
\<close>

lemma toDouble_samples:
  "toDouble (1 / 10) = Num (3602879701896397 / 36028797018963968)"
  "toDouble (1 / 3) = Num (6004799503160661 / 18014398509481984)"
  "toDouble (2306 / 1000) = Num (2596325185179091 / 1125899906842624)"
  "toDouble 9007199254740993 = Num 9007199254740992"
  "toDouble 9007199254740995 = Num 9007199254740996"
  "toDouble (- 9007199254740993) = Num (- 9007199254740992)"
  by code_simp+

lemma hundredths:
  assumes "c = js_div (Math_round y) (Num 100)"
  shows "c = NaN \<or> c = PosInfinity \<or> c = NegInfinity \<or>
         (\<exists>k::int. c = toDouble (of_int k / 100))"
  unfolding assms by (cases y) (auto simp: signedInfinity_def)

lemma cost_of_10_gb:
  "js_div (Math_round (js_mul (js_mul (js_mul (Num 10)
      (Math_max (Num 0) (js_div (js_sub (Num (of_int 3600000)) (Num (of_int 0))) (Num 3600000))))
      (toDouble (2306 / 1000))) (Num 100))) (Num 100) =
   Num (6490812962947727 / 281474976710656)"
  "js_div (Math_round (js_mul (js_mul (js_mul (Num 10)
      (Math_max (Num 0) (js_div (js_sub (Num (of_int 7200000)) (Num (of_int 0))) (Num 3600000))))
      (toDouble (2306 / 1000))) (Num 100))) (Num 100) =
   Num (6490812962947727 / 140737488355328)"
  "js_div (Math_round (js_mul (js_mul (js_mul (Num 10)
      (Math_max (Num 0) (js_div (js_sub (Num (of_int 92700000)) (Num (of_int 0))) (Num 3600000))))
      (toDouble (2306 / 1000))) (Num 100))) (Num 100) =
   Num (652879009457111 / 1099511627776)"
  by code_simp+

lemma sample_fields:
  "storageGb sampleBackup = Some (Num 10)" "status sampleBackup \<noteq> ''DELETED''"
  "createdAt sampleBackup = 0"
  "storageGb deletedBackup = Some (Num 10)" "status deletedBackup = ''DELETED''"
  "createdAt deletedBackup = 0" "updatedAt deletedBackup = 7200000"
  by (simp_all add: sampleBackup_def deletedBackup_def)

lemma sample_cost:
  "currentCost T sampleBackup =
     js_div (Math_round (js_mul (js_mul (js_mul (Num 10)
       (Math_max (Num 0) (js_div (js_sub (Num (of_int T)) (Num (of_int 0))) (Num 3600000))))
       (toDouble (2306 / 1000))) (Num 100))) (Num 100)"
  using currentCost_Some[OF sample_fields(1) refl refl refl, of T] sample_fields(2,3) by simp

lemma sample_cost_after_25_75_hours:
  "currentCost 92700000 sampleBackup = Num (652879009457111 / 1099511627776)"
  unfolding sample_cost by (rule cost_of_10_gb(3))

lemma sample_cost_after_1_hour:
  "currentCost 3600000 sampleBackup = Num (6490812962947727 / 281474976710656)"
  unfolding sample_cost by (rule cost_of_10_gb(1))

lemma sample_cost_after_2_hours:
  "currentCost 7200000 sampleBackup = Num (6490812962947727 / 140737488355328)"
  unfolding sample_cost by (rule cost_of_10_gb(2))

lemma sample_found:
  "getBackup True now [sampleBackup] sampleRequest =
     \<lparr>statusCode = 200, responseBody = BackupBody sampleBackup (currentCost now sampleBackup)\<rparr>"
  by (simp add: getBackup_def falsy_def sampleRequest_def sampleBackup_def db_getBackupById_def)

text \<open>
  C2, as stated, fails. The claim: the cost attached by the read operation equals
  \<open>storageGb\<close> times the elapsed hours times 2.306, rounded to two decimal places. For
  \<open>storageGb = 10\<close> read 25.75 hours after creation the exact product is 593.795, which
  rounds to 593.80; the handler, computing in doubles, gets 59379.49999999999 before
  \<open>Math.round\<close> and answers the double nearest to 593.79, more than half a hundredth
  below the exact product.
\<close>

theorem C2_double_rounding_counterexample:
  "getBackup True 92700000 [sampleBackup] sampleRequest =
     \<lparr>statusCode = 200,
      responseBody = BackupBody sampleBackup (Num (652879009457111 / 1099511627776))\<rparr> \<and>
   storageGb sampleBackup = Some (Num 10) \<and>
   (92700000 - createdAt sampleBackup) * 100 = 2575 * 3600000 \<and>
   (10 :: rat) * (2575 / 100) * (2306 / 1000) = 593795 / 1000 \<and>
   of_int \<lfloor>(593795 / 1000 :: rat) * 100 + 1 / 2\<rfloor> / 100 = (59380 / 100 :: rat) \<and>
   toDouble (59379 / 100) = Num (652879009457111 / 1099511627776) \<and>
   toDouble (59380 / 100) = Num (2611560018293555 / 4398046511104) \<and>
   (652879009457111 / 1099511627776 :: rat) + 1 / 200 < 593795 / 1000"
proof -
  have a: "getBackup True 92700000 [sampleBackup] sampleRequest =
     \<lparr>statusCode = 200,
      responseBody = BackupBody sampleBackup (Num (652879009457111 / 1099511627776))\<rparr>"
    by (simp add: sample_found sample_cost_after_25_75_hours)
  have b: "storageGb sampleBackup = Some (Num 10)"
    "(92700000 - createdAt sampleBackup) * 100 = 2575 * 3600000"
    by (simp_all add: sampleBackup_def)
  have c: "(10 :: rat) * (2575 / 100) * (2306 / 1000) = 593795 / 1000"
    "(652879009457111 / 1099511627776 :: rat) + 1 / 200 < 593795 / 1000"
    by simp_all
  have d: "of_int \<lfloor>(593795 / 1000 :: rat) * 100 + 1 / 2\<rfloor> / 100 = (59380 / 100 :: rat)"
    by code_simp
  have e: "toDouble (59379 / 100) = Num (652879009457111 / 1099511627776)"
    by code_simp
  have f: "toDouble (59380 / 100) = Num (2611560018293555 / 4398046511104)"
    by code_simp
  from a b c d e f show ?thesis by blast
qed

text \<open>
  C2, amended. A backup returned by the read operation carries \<open>currentCost\<close> equal to
  \<open>Math.round(storageGb * elapsedHours * 2.306 * 100) / 100\<close> with every operation
  evaluated in double arithmetic, where the elapsed hours are the larger of 0 and the
  hours from \<open>createdAt\<close> to the end time; the result, when finite, is the double nearest
  to a whole number of hundredths. A backup whose \<open>storageGb\<close> is null carries cost 0.
\<close>

theorem C2_current_cost:
  assumes "getBackup dbOk now st req = \<lparr>statusCode = 200, responseBody = BackupBody b c\<rparr>"
  shows "(storageGb b = None \<longrightarrow> c = Num 0) \<and>
         (\<forall>gb endTime elapsedHours product.
            storageGb b = Some gb \<and>
            endTime = (if status b = ''DELETED'' then updatedAt b else now) \<and>
            elapsedHours =
              Math_max (Num 0)
                (js_div (js_sub (Num (of_int endTime)) (Num (of_int (createdAt b))))
                   (Num 3600000)) \<and>
            product = js_mul (js_mul gb elapsedHours) (toDouble (2306 / 1000)) \<longrightarrow>
              c = js_div (Math_round (js_mul product (Num 100))) (Num 100) \<and>
              (c = NaN \<or> c = PosInfinity \<or> c = NegInfinity \<or>
               (\<exists>k::int. c = toDouble (of_int k / 100))))"
proof -
  from getBackup_ok[OF assms] have c: "c = currentCost now b" by blast
  have none: "storageGb b = None \<longrightarrow> c = Num 0"
    by (simp add: c currentCost_None)
  have some: "c = js_div (Math_round (js_mul product (Num 100))) (Num 100) \<and>
              (c = NaN \<or> c = PosInfinity \<or> c = NegInfinity \<or>
               (\<exists>k::int. c = toDouble (of_int k / 100)))"
    if "storageGb b = Some gb"
      and "endTime = (if status b = ''DELETED'' then updatedAt b else now)"
      and "elapsedHours =
              Math_max (Num 0)
                (js_div (js_sub (Num (of_int endTime)) (Num (of_int (createdAt b))))
                   (Num 3600000))"
      and "product = js_mul (js_mul gb elapsedHours) (toDouble (2306 / 1000))"
    for gb endTime elapsedHours product
  proof -
    have ceq: "c = js_div (Math_round (js_mul product (Num 100))) (Num 100)"
      unfolding c by (rule currentCost_Some[OF that])
    from ceq hundredths[OF ceq] show ?thesis by blast
  qed
  from none some show ?thesis by blast
qed

theorem C2_current_cost_witness:
  "getBackup True 3600000 [sampleBackup] sampleRequest =
     \<lparr>statusCode = 200,
      responseBody = BackupBody sampleBackup (Num (6490812962947727 / 281474976710656))\<rparr> \<and>
   storageGb sampleBackup = Some (Num 10) \<and>
   Num (6490812962947727 / 281474976710656) =
     js_div (Math_round (js_mul (js_mul (js_mul (Num 10) (Num 1)) (toDouble (2306 / 1000)))
                           (Num 100)))
       (Num 100) \<and>
   Num (6490812962947727 / 281474976710656) = toDouble (2306 / 100)"
proof -
  have r: "getBackup True 3600000 [sampleBackup] sampleRequest =
     \<lparr>statusCode = 200,
      responseBody = BackupBody sampleBackup (Num (6490812962947727 / 281474976710656))\<rparr>"
    by (simp add: sample_found sample_cost_after_1_hour)
  have h0: "Num 1 = Math_max (Num 0)
             (js_div (js_sub (Num (of_int 3600000)) (Num (of_int 0))) (Num 3600000))"
    by code_simp
  have h: "Num 1 = Math_max (Num 0)
             (js_div (js_sub (Num (of_int 3600000)) (Num (of_int (createdAt sampleBackup))))
                (Num 3600000))"
    unfolding sample_fields(3) by (rule h0)
  have pre: "storageGb sampleBackup = Some (Num 10) \<and>
      3600000 = (if status sampleBackup = ''DELETED'' then updatedAt sampleBackup else 3600000) \<and>
      Num 1 = Math_max (Num 0)
             (js_div (js_sub (Num (of_int 3600000)) (Num (of_int (createdAt sampleBackup))))
                (Num 3600000)) \<and>
      js_mul (js_mul (Num 10) (Num 1)) (toDouble (2306 / 1000)) =
        js_mul (js_mul (Num 10) (Num 1)) (toDouble (2306 / 1000))"
    using h sample_fields(1,2) by simp
  from C2_current_cost[OF r] pre
  have "Num (6490812962947727 / 281474976710656) =
     js_div (Math_round (js_mul (js_mul (js_mul (Num 10) (Num 1)) (toDouble (2306 / 1000)))
                           (Num 100)))
       (Num 100)"
    by blast
  moreover have "Num (6490812962947727 / 281474976710656) = toDouble (2306 / 100)"
    by code_simp
  moreover have "storageGb sampleBackup = Some (Num 10)"
    by (simp add: sampleBackup_def)
  ultimately show ?thesis using r by blast
qed

text \<open>
  C3. For a DELETED backup the accrual window ends at \<open>updatedAt\<close>, so the cost (and the
  whole answer of the read operation) is the same at any two wall-clock times; for a
  backup in any other status the window ends at the wall-clock time of the read.
\<close>

theorem C3_deleted_cost_frozen:
  "(status b = ''DELETED'' \<longrightarrow>
      currentCost T1 b = currentCost T2 b \<and>
      (\<forall>gb. storageGb b = Some gb \<longrightarrow>
         currentCost T1 b =
           js_div (Math_round (js_mul (js_mul (js_mul gb
              (Math_max (Num 0)
                 (js_div (js_sub (Num (of_int (updatedAt b))) (Num (of_int (createdAt b))))
                    (Num 3600000))))
              (toDouble (2306 / 1000))) (Num 100))) (Num 100)) \<and>
      (find (\<lambda>x. backupId x = the (params_id req)) st = Some b \<longrightarrow>
         getBackup dbOk T1 st req = getBackup dbOk T2 st req)) \<and>
   (status b \<noteq> ''DELETED'' \<longrightarrow>
      (\<forall>gb. storageGb b = Some gb \<longrightarrow>
         currentCost T1 b =
           js_div (Math_round (js_mul (js_mul (js_mul gb
              (Math_max (Num 0)
                 (js_div (js_sub (Num (of_int T1)) (Num (of_int (createdAt b))))
                    (Num 3600000))))
              (toDouble (2306 / 1000))) (Num 100))) (Num 100)))"
proof -
  have frozen: "currentCost T1 b = currentCost T2 b" if "status b = ''DELETED''"
    using that by (simp add: currentCost_def)
  have window: "currentCost T1 b =
           js_div (Math_round (js_mul (js_mul (js_mul gb
              (Math_max (Num 0)
                 (js_div (js_sub (Num (of_int (updatedAt b))) (Num (of_int (createdAt b))))
                    (Num 3600000))))
              (toDouble (2306 / 1000))) (Num 100))) (Num 100)"
    if "status b = ''DELETED''" "storageGb b = Some gb" for gb
    using currentCost_Some[OF that(2) refl refl refl, of T1] that(1) by simp
  have handler: "getBackup dbOk T1 st req = getBackup dbOk T2 st req"
    if "status b = ''DELETED''" "find (\<lambda>x. backupId x = the (params_id req)) st = Some b"
    using that frozen by (simp add: getBackup_def db_getBackupById_def)
  have live: "currentCost T1 b =
           js_div (Math_round (js_mul (js_mul (js_mul gb
              (Math_max (Num 0)
                 (js_div (js_sub (Num (of_int T1)) (Num (of_int (createdAt b))))
                    (Num 3600000))))
              (toDouble (2306 / 1000))) (Num 100))) (Num 100)"
    if "status b \<noteq> ''DELETED''" "storageGb b = Some gb" for gb
    using currentCost_Some[OF that(2) refl refl refl, of T1] that(1) by simp
  from frozen window handler live show ?thesis by blast
qed

theorem C3_deleted_cost_frozen_witness:
  "status deletedBackup = ''DELETED'' \<and> storageGb deletedBackup = Some (Num 10) \<and>
   currentCost 10000000 deletedBackup = currentCost 900000000 deletedBackup \<and>
   currentCost 10000000 deletedBackup = Num (6490812962947727 / 140737488355328) \<and>
   status sampleBackup \<noteq> ''DELETED'' \<and> storageGb sampleBackup = Some (Num 10) \<and>
   currentCost 3600000 sampleBackup = Num (6490812962947727 / 281474976710656) \<and>
   currentCost 7200000 sampleBackup = Num (6490812962947727 / 140737488355328)"
proof -
  note d = sample_fields(5) and g = sample_fields(4)
    and l = sample_fields(2) and g' = sample_fields(1)
  from C3_deleted_cost_frozen[of deletedBackup 10000000 900000000] d g
  have a: "currentCost 10000000 deletedBackup = currentCost 900000000 deletedBackup"
    and b: "currentCost 10000000 deletedBackup =
           js_div (Math_round (js_mul (js_mul (js_mul (Num 10)
              (Math_max (Num 0)
                 (js_div (js_sub (Num (of_int (updatedAt deletedBackup)))
                            (Num (of_int (createdAt deletedBackup))))
                    (Num 3600000))))
              (toDouble (2306 / 1000))) (Num 100))) (Num 100)"
    by blast+
  from C3_deleted_cost_frozen[of sampleBackup 3600000] l g'
  have c: "currentCost 3600000 sampleBackup =
           js_div (Math_round (js_mul (js_mul (js_mul (Num 10)
              (Math_max (Num 0)
                 (js_div (js_sub (Num (of_int 3600000)) (Num (of_int (createdAt sampleBackup))))
                    (Num 3600000))))
              (toDouble (2306 / 1000))) (Num 100))) (Num 100)"
    by blast
  from C3_deleted_cost_frozen[of sampleBackup 7200000] l g'
  have e: "currentCost 7200000 sampleBackup =
           js_div (Math_round (js_mul (js_mul (js_mul (Num 10)
              (Math_max (Num 0)
                 (js_div (js_sub (Num (of_int 7200000)) (Num (of_int (createdAt sampleBackup))))
                    (Num 3600000))))
              (toDouble (2306 / 1000))) (Num 100))) (Num 100)"
    by blast
  note b' = b[unfolded sample_fields(6,7) cost_of_10_gb(2)]
    and c' = c[unfolded sample_fields(3) cost_of_10_gb(1)]
    and e' = e[unfolded sample_fields(3) cost_of_10_gb(2)]
  from d g l g' a b' c' e' show ?thesis by blast
qed

lemma find_updated:
  assumes "find (\<lambda>b. backupId b = bid) st = Some cur" and "backupId u = bid"
  shows "find (\<lambda>b. backupId b = bid) (map (\<lambda>b. if backupId b = bid then u else b) st) = Some u"
  using assms by (induction st) (auto split: if_splits)

lemma find_backupId: "find (\<lambda>b. backupId b = bid) st = Some cur \<Longrightarrow> backupId cur = bid"
  by (induction st) (auto split: if_splits)

lemma db_updateBackupStatus_accepted:
  assumes "find (\<lambda>b. backupId b = bid) st = Some cur"
    and "isValidStatusTransition (JsString (status cur)) newStatus"
  shows "\<exists>u st'. db_updateBackupStatus True now st bid newStatus newBytes newMessage =
                        (Inr u, st') \<and>
               find (\<lambda>b. backupId b = bid) st' = Some u \<and>
               status u = newStatus \<and> updatedAt u = now \<and>
               storageBytes u = (case newBytes of None \<Rightarrow> storageBytes cur | Some v \<Rightarrow> Some v) \<and>
               errorMessage u =
                 (case newMessage of None \<Rightarrow> errorMessage cur | Some m \<Rightarrow> Some m) \<and>
               backupId u = backupId cur \<and> userEmail u = userEmail cur \<and>
               createdAt u = createdAt cur \<and> name u = name cur"
proof -
  have known: "newStatus \<in> set statuses"
    using assms(2) by (auto simp: isValidStatusTransition_string statuses_def)
  define u where "u = cur\<lparr>storageBytes :=
                       (case newBytes of None \<Rightarrow> storageBytes cur | Some v \<Rightarrow> Some v),
                     storageGb := map_option bytesToGb
                       (case newBytes of None \<Rightarrow> storageBytes cur | Some v \<Rightarrow> Some v),
                     status := newStatus,
                     errorMessage :=
                       (case newMessage of None \<Rightarrow> errorMessage cur | Some m \<Rightarrow> Some m),
                     updatedAt := now\<rparr>"
  have id_u: "backupId u = bid"
    using find_backupId[OF assms(1)] by (simp add: u_def)
  have run: "db_updateBackupStatus True now st bid newStatus newBytes newMessage =
               (Inr u, map (\<lambda>b. if backupId b = bid then u else b) st)"
    using assms known by (simp add: db_updateBackupStatus_def Let_def u_def)
  have found: "find (\<lambda>b. backupId b = bid)
                 (map (\<lambda>b. if backupId b = bid then u else b) st) = Some u"
    by (rule find_updated[OF assms(1) id_u])
  have fields: "status u = newStatus" "updatedAt u = now"
    "storageBytes u = (case newBytes of None \<Rightarrow> storageBytes cur | Some v \<Rightarrow> Some v)"
    "errorMessage u =
       (case newMessage of None \<Rightarrow> errorMessage cur | Some m \<Rightarrow> Some m)"
    "backupId u = backupId cur" "userEmail u = userEmail cur"
    "createdAt u = createdAt cur" "name u = name cur"
    by (simp_all add: u_def)
  from run found fields show ?thesis by blast
qed

lemma db_updateBackupStatus_rejected:
  "db_updateBackupStatus dbOk now st bid newStatus newBytes newMessage = (Inl e, st') \<Longrightarrow> st' = st"
  by (auto simp: db_updateBackupStatus_def Let_def split: if_splits option.splits)

lemma db_updateBackupStatus_js_rejected:
  "db_updateBackupStatus_js dbOk now st bid newStatus bytesArg newMessage = (Inl e, st') \<Longrightarrow>
   st' = st"
  by (auto simp: db_updateBackupStatus_js_def split: option.splits prod.splits sum.splits
        dest: db_updateBackupStatus_rejected)

text \<open>
  C4. \<open>updateBackupStatus\<close> on an existing backup: an illegal transition, which includes a
  requested status outside the four known ones, is rejected with an error and the table is
  returned as it was; a legal one sets the status and \<open>updatedAt = now\<close> and keeps the
  stored \<open>storageBytes\<close> and \<open>errorMessage\<close> when the arguments are not provided.
\<close>

theorem C4_update_status:
  assumes "find (\<lambda>b. backupId b = bid) st = Some cur"
  shows "(\<not> isValidStatusTransition (JsString (status cur)) newStatus \<longrightarrow>
            db_updateBackupStatus True now st bid newStatus newBytes newMessage =
              (Inl (if newStatus \<in> set statuses
                    then InvalidTransition (status cur) newStatus
                    else InvalidStatus newStatus), st)) \<and>
         (isValidStatusTransition (JsString (status cur)) newStatus \<longrightarrow>
            (\<exists>u st'. db_updateBackupStatus True now st bid newStatus newBytes newMessage =
                        (Inr u, st') \<and>
               find (\<lambda>b. backupId b = bid) st' = Some u \<and>
               status u = newStatus \<and> updatedAt u = now \<and>
               storageBytes u = (case newBytes of None \<Rightarrow> storageBytes cur | Some v \<Rightarrow> Some v) \<and>
               errorMessage u =
                 (case newMessage of None \<Rightarrow> errorMessage cur | Some m \<Rightarrow> Some m) \<and>
               backupId u = backupId cur \<and> userEmail u = userEmail cur \<and>
               createdAt u = createdAt cur \<and> name u = name cur))"
proof -
  have rejected: "db_updateBackupStatus True now st bid newStatus newBytes newMessage =
              (Inl (if newStatus \<in> set statuses
                    then InvalidTransition (status cur) newStatus
                    else InvalidStatus newStatus), st)"
    if "\<not> isValidStatusTransition (JsString (status cur)) newStatus"
    using that assms by (simp add: db_updateBackupStatus_def)
  from rejected db_updateBackupStatus_accepted[OF assms, of newStatus now newBytes newMessage]
  show ?thesis by blast
qed

theorem C4_update_status_witness:
  "find (\<lambda>b. backupId b = ''bak-2'') sampleStore = Some newerBackup \<and>
   db_updateBackupStatus True 60000 sampleStore ''bak-2'' ''DELETED'' None None =
     (Inl (InvalidTransition ''CREATING'' ''DELETED''), sampleStore) \<and>
   db_updateBackupStatus True 60000 sampleStore ''bak-2'' ''PAUSED'' None None =
     (Inl (InvalidStatus ''PAUSED''), sampleStore) \<and>
   (\<exists>u st'. db_updateBackupStatus True 60000 sampleStore ''bak-2'' ''ERROR'' None (Some ''quota'') =
              (Inr u, st') \<and> status u = ''ERROR'' \<and> updatedAt u = 60000 \<and>
              storageBytes u = storageBytes newerBackup \<and> errorMessage u = Some ''quota'')"
proof -
  have f: "find (\<lambda>b. backupId b = ''bak-2'') sampleStore = Some newerBackup"
    by (simp add: sampleStore_def sampleBackup_def otherOwnersBackup_def deletedBackup_def
          newerBackup_def)
  have s: "status newerBackup = ''CREATING''" by (simp add: newerBackup_def)
  have n1: "\<not> isValidStatusTransition (JsString (status newerBackup)) ''DELETED''"
    and n2: "\<not> isValidStatusTransition (JsString (status newerBackup)) ''PAUSED''"
    and y: "isValidStatusTransition (JsString (status newerBackup)) ''ERROR''"
    and k1: "''DELETED'' \<in> set statuses" and k2: "''PAUSED'' \<notin> set statuses"
    by (simp_all add: s isValidStatusTransition_string statuses_def)
  from C4_update_status[OF f, of "''DELETED''" 60000 None None] n1 k1 s
  have a: "db_updateBackupStatus True 60000 sampleStore ''bak-2'' ''DELETED'' None None =
     (Inl (InvalidTransition ''CREATING'' ''DELETED''), sampleStore)" by simp
  from C4_update_status[OF f, of "''PAUSED''" 60000 None None] n2 k2
  have b: "db_updateBackupStatus True 60000 sampleStore ''bak-2'' ''PAUSED'' None None =
     (Inl (InvalidStatus ''PAUSED''), sampleStore)" by simp
  from C4_update_status[OF f, of "''ERROR''" 60000 None "Some ''quota''"] y
  have c: "\<exists>u st'. db_updateBackupStatus True 60000 sampleStore ''bak-2'' ''ERROR'' None (Some ''quota'') =
              (Inr u, st') \<and> status u = ''ERROR'' \<and> updatedAt u = 60000 \<and>
              storageBytes u = storageBytes newerBackup \<and> errorMessage u = Some ''quota''"
    by auto
  from f a b c show ?thesis by blast
qed

text \<open>
  C5, as stated, fails. The claim: a describe failure other than "not ready" moves the
  backup to ERROR and stops the polling. Here \<open>describeMachineImage\<close> throws a permission
  error in the only round; the job is still polling afterwards and the backup is still
  CREATING, with no error message.
\<close>

theorem C5_describe_failure_counterexample:
  "describeResult failedDescribe = Inl permissionError \<and>
   db_getBackupById True sampleStore ''bak-2'' = Inr (Some newerBackup) \<and>
   status newerBackup = ''CREATING'' \<and>
   runMachineImageJob None True 5000 [failedDescribe] sampleStore ''bak-2'' =
     (Polled StillPolling, sampleStore) \<and>
   status newerBackup \<noteq> ''ERROR'' \<and> errorMessage newerBackup = None"
proof -
  have a: "describeResult failedDescribe = Inl permissionError"
    by (simp add: failedDescribe_def)
  have b: "db_getBackupById True sampleStore ''bak-2'' = Inr (Some newerBackup)"
    by (simp add: db_getBackupById_def sampleStore_def sampleBackup_def otherOwnersBackup_def
          deletedBackup_def newerBackup_def)
  have c: "status newerBackup = ''CREATING''" "status newerBackup \<noteq> ''ERROR''"
    "errorMessage newerBackup = None"
    by (simp_all add: newerBackup_def sampleBackup_def)
  have d: "runMachineImageJob None True 5000 [failedDescribe] sampleStore ''bak-2'' =
     (Polled StillPolling, sampleStore)"
    by (simp add: runMachineImageJob_def a)
  from a b c d show ?thesis by blast
qed

lemma pollLoop_all_failures:
  "list_all (\<lambda>a. isl (describeResult a)) attempts \<Longrightarrow> pollLoop st bid attempts = (StillPolling, st)"
  by (induction attempts) (auto split: sum.splits)

lemma pollLoop_cases:
  "pollLoop st bid attempts = (StillPolling, st) \<or>
   (\<exists>a \<in> set attempts. \<exists>v u st'.
      describeResult a = Inr (Some v) \<and> v \<noteq> StorageUndefined \<and>
      db_updateBackupStatus_js (attemptDbOk a) (attemptTime a) st bid ''COMPLETED''
        (storageArgument v) None = (Inr u, st') \<and>
      pollLoop st bid attempts = (Completed, st'))"
proof (induction attempts)
  case Nil
  show ?case by simp
next
  case (Cons a rest)
  show ?case
  proof (cases "describeResult a")
    case (Inl err)
    with Cons show ?thesis by auto
  next
    case (Inr d)
    show ?thesis
    proof (cases d)
      case None
      with Inr Cons show ?thesis by auto
    next
      case (Some v)
      show ?thesis
      proof (cases "v = StorageUndefined")
        case True
        with Some Inr Cons show ?thesis by auto
      next
        case False
        obtain r st' where upd: "db_updateBackupStatus_js (attemptDbOk a) (attemptTime a) st bid
            ''COMPLETED'' (storageArgument v) None = (r, st')"
          by (cases "db_updateBackupStatus_js (attemptDbOk a) (attemptTime a) st bid
            ''COMPLETED'' (storageArgument v) None") blast
        show ?thesis
        proof (cases r)
          case (Inl e)
          with upd have same: "st' = st" by (auto dest: db_updateBackupStatus_js_rejected)
          have step: "pollLoop st bid (a # rest) = pollLoop st bid rest"
            using Inr Some False upd Inl same by (cases v) simp_all
          with Cons show ?thesis by auto
        next
          case (Inr u)
          have step: "pollLoop st bid (a # rest) = (Completed, st')"
            using \<open>describeResult a = Inr d\<close> Some False upd Inr by (cases v) simp_all
          with \<open>describeResult a = Inr d\<close> Some False upd Inr show ?thesis by auto
        qed
      qed
    qed
  qed
qed

text \<open>
  C5, amended. In the polling loop every failure of \<open>describeMachineImage\<close>, whatever its
  kind, is taken as "not ready": the round changes nothing and the loop goes on, so a run
  of failing rounds leaves the table as it was (the backup is not moved to ERROR) with the
  loop still polling. The loop stops only in a round whose description carries a defined
  \<open>totalStorageBytes\<close> and whose COMPLETED update succeeds.
\<close>

theorem C5_failures_keep_polling:
  "pollLoop st bid (\<lparr>attemptTime = t, describeResult = Inl err, attemptDbOk = ok\<rparr> # rest) =
     pollLoop st bid rest \<and>
   (list_all (\<lambda>a. isl (describeResult a)) attempts \<longrightarrow>
      runMachineImageJob None dbOk now attempts st bid = (Polled StillPolling, st)) \<and>
   (runMachineImageJob None dbOk now attempts st bid = (Polled StillPolling, st) \<or>
    (\<exists>a \<in> set attempts. \<exists>v u st'.
       describeResult a = Inr (Some v) \<and> v \<noteq> StorageUndefined \<and>
       db_updateBackupStatus_js (attemptDbOk a) (attemptTime a) st bid ''COMPLETED''
         (storageArgument v) None = (Inr u, st') \<and>
       runMachineImageJob None dbOk now attempts st bid = (Polled Completed, st')))"
proof -
  have one: "pollLoop st bid
       (\<lparr>attemptTime = t, describeResult = Inl err, attemptDbOk = ok\<rparr> # rest) =
     pollLoop st bid rest"
    by simp
  have job: "runMachineImageJob None dbOk now attempts st bid = (Polled ps, st') \<longleftrightarrow>
             pollLoop st bid attempts = (ps, st')" for ps st'
    by (auto simp: runMachineImageJob_def split: prod.splits)
  have many: "runMachineImageJob None dbOk now attempts st bid = (Polled StillPolling, st)"
    if "list_all (\<lambda>a. isl (describeResult a)) attempts"
    using pollLoop_all_failures[OF that, of st bid] by (simp add: runMachineImageJob_def)
  have stop: "runMachineImageJob None dbOk now attempts st bid = (Polled StillPolling, st) \<or>
    (\<exists>a \<in> set attempts. \<exists>v u st'.
       describeResult a = Inr (Some v) \<and> v \<noteq> StorageUndefined \<and>
       db_updateBackupStatus_js (attemptDbOk a) (attemptTime a) st bid ''COMPLETED''
         (storageArgument v) None = (Inr u, st') \<and>
       runMachineImageJob None dbOk now attempts st bid = (Polled Completed, st'))"
    unfolding job by (rule pollLoop_cases)
  from one many stop show ?thesis by blast
qed

theorem C5_failures_keep_polling_witness:
  "list_all (\<lambda>a. isl (describeResult a)) [failedDescribe, failedDescribe] \<and>
   runMachineImageJob None True 5000 [failedDescribe, failedDescribe] sampleStore ''bak-2'' =
     (Polled StillPolling, sampleStore)"
proof -
  have h: "list_all (\<lambda>a. isl (describeResult a)) [failedDescribe, failedDescribe]"
    by (simp add: failedDescribe_def)
  from C5_failures_keep_polling[of sampleStore "''bak-2''" 0 permissionError True "[]"
        "[failedDescribe, failedDescribe]" True 5000] h
  show ?thesis by blast
qed

text \<open>
  C6. When \<open>deleteMachineImage\<close> fails, \<open>deleteBackup\<close> leaves the table as it was and
  never calls \<open>dbService.deleteBackup\<close>; for a backup the caller owns it answers 500 with
  the error code and message of the adapter's error.
\<close>

theorem C6_delete_aborts:
  "fst (snd (deleteBackup getOk (Some err) deleteOk now st req)) = st \<and>
   DbDeleteBackup anyId \<notin> set (snd (snd (deleteBackup getOk (Some err) deleteOk now st req))) \<and>
   (user_email req = Some email \<and> email \<noteq> [] \<and> params_id req = Some bid \<and> bid \<noteq> [] \<and>
    find (\<lambda>b. backupId b = bid) st = Some b \<and> userEmail b = email \<longrightarrow>
      deleteBackup True (Some err) deleteOk now st req =
        (errorResponse 500 (orDefault (error_code err) ''GCP_ERROR'')
           (orDefault (error_message err) ''Failed to delete machine image''),
         st,
         [DbGetBackupById bid, GcpDeleteMachineImage (gcpMachineImageName b)]))"
proof -
  have untouched: "fst (snd (deleteBackup getOk (Some err) deleteOk now st req)) = st"
    by (simp add: deleteBackup_def Let_def split: sum.splits option.splits)
  have uncalled:
    "DbDeleteBackup anyId \<notin> set (snd (snd (deleteBackup getOk (Some err) deleteOk now st req)))"
    by (simp add: deleteBackup_def Let_def split: sum.splits option.splits)
  have aborted: "deleteBackup True (Some err) deleteOk now st req =
        (errorResponse 500 (orDefault (error_code err) ''GCP_ERROR'')
           (orDefault (error_message err) ''Failed to delete machine image''),
         st,
         [DbGetBackupById bid, GcpDeleteMachineImage (gcpMachineImageName b)])"
    if "user_email req = Some email" "email \<noteq> []" "params_id req = Some bid" "bid \<noteq> []"
      "find (\<lambda>b. backupId b = bid) st = Some b" "userEmail b = email"
    using that by (simp add: deleteBackup_def Let_def falsy_def db_getBackupById_def)
  from untouched uncalled aborted show ?thesis by blast
qed

theorem C6_delete_aborts_witness:
  "user_email sampleRequest = Some ''alice@example.com'' \<and>
   params_id sampleRequest = Some ''bak-1'' \<and>
   find (\<lambda>b. backupId b = ''bak-1'') sampleStore = Some sampleBackup \<and>
   userEmail sampleBackup = ''alice@example.com'' \<and>
   deleteBackup True (Some permissionError) True 60000 sampleStore sampleRequest =
     (errorResponse 500 ''PERMISSION_ERROR'' ''Permission denied'', sampleStore,
      [DbGetBackupById ''bak-1'', GcpDeleteMachineImage ''backup-inst-1-1700000000000''])"
proof -
  have h: "user_email sampleRequest = Some ''alice@example.com''"
      "''alice@example.com'' \<noteq> []"
      "params_id sampleRequest = Some ''bak-1''" "''bak-1'' \<noteq> []"
      "find (\<lambda>b. backupId b = ''bak-1'') sampleStore = Some sampleBackup"
      "userEmail sampleBackup = ''alice@example.com''"
    by (simp_all add: sampleRequest_def sampleStore_def sampleBackup_def)
  have v: "orDefault (error_code permissionError) ''GCP_ERROR'' = ''PERMISSION_ERROR''"
      "orDefault (error_message permissionError) ''Failed to delete machine image'' =
         ''Permission denied''"
      "gcpMachineImageName sampleBackup = ''backup-inst-1-1700000000000''"
    by (simp_all add: permissionError_def orDefault_def falsy_def sampleBackup_def)
  from C6_delete_aborts[of True permissionError True 60000 sampleStore sampleRequest
        _ "''alice@example.com''" "''bak-1''" sampleBackup] h
  have "deleteBackup True (Some permissionError) True 60000 sampleStore sampleRequest =
        (errorResponse 500 (orDefault (error_code permissionError) ''GCP_ERROR'')
           (orDefault (error_message permissionError) ''Failed to delete machine image''),
         sampleStore,
         [DbGetBackupById ''bak-1'', GcpDeleteMachineImage (gcpMachineImageName sampleBackup)])"
    by blast
  with h v show ?thesis by simp
qed

text \<open>
  C7, as stated, fails. The claim: deleting a CREATING backup is reported as HTTP 409,
  distinct from store-unavailable. Here the owner deletes a CREATING backup, the adapter
  delete succeeds and the store rejects the transition; the answer is 503, equal to the
  answer given when the database does not respond.
\<close>

theorem C7_status_409_counterexample:
  "db_getBackupById True sampleStore ''bak-2'' = Inr (Some newerBackup) \<and>
   userEmail newerBackup = ''alice@example.com'' \<and> status newerBackup = ''CREATING'' \<and>
   deleteBackup True None True 60000 sampleStore creatingRequest =
     (errorResponse 503 ''Service Unavailable'' ''Database service temporarily unavailable'',
      sampleStore,
      [DbGetBackupById ''bak-2'', GcpDeleteMachineImage ''backup-inst-1-1700000000000'',
       DbDeleteBackup ''bak-2'']) \<and>
   statusCode (fst (deleteBackup True None True 60000 sampleStore creatingRequest)) \<noteq> 409 \<and>
   fst (deleteBackup True None True 60000 sampleStore creatingRequest) =
     fst (deleteBackup True None False 60000 sampleStore creatingRequest)"
proof -
  have g: "db_getBackupById True sampleStore ''bak-2'' = Inr (Some newerBackup)"
    by (simp add: db_getBackupById_def sampleStore_def sampleBackup_def otherOwnersBackup_def
          deletedBackup_def newerBackup_def)
  have n: "userEmail newerBackup = ''alice@example.com''" "status newerBackup = ''CREATING''"
    "gcpMachineImageName newerBackup = ''backup-inst-1-1700000000000''"
    by (simp_all add: newerBackup_def sampleBackup_def)
  have f: "find (\<lambda>b. backupId b = ''bak-2'') sampleStore = Some newerBackup"
    using g by (simp add: db_getBackupById_def)
  have k: "''DELETED'' \<in> set statuses" by (simp add: statuses_def)
  have r: "db_deleteBackup True 60000 sampleStore ''bak-2'' =
             (Inl (InvalidTransition ''CREATING'' ''DELETED''), sampleStore)"
    by (simp add: db_deleteBackup_def db_updateBackupStatus_def f n k
          isValidStatusTransition_string)
  have down: "db_deleteBackup False 60000 sampleStore ''bak-2'' =
             (Inl DatabaseQueryFailed, sampleStore)"
    by (simp add: db_deleteBackup_def db_updateBackupStatus_def)
  have a: "deleteBackup True None True 60000 sampleStore creatingRequest =
     (errorResponse 503 ''Service Unavailable'' ''Database service temporarily unavailable'',
      sampleStore,
      [DbGetBackupById ''bak-2'', GcpDeleteMachineImage ''backup-inst-1-1700000000000'',
       DbDeleteBackup ''bak-2''])"
    by (simp add: deleteBackup_def Let_def creatingRequest_def falsy_def g n r
          serviceUnavailable_def)
  have b: "fst (deleteBackup True None False 60000 sampleStore creatingRequest) =
     errorResponse 503 ''Service Unavailable'' ''Database service temporarily unavailable''"
    by (simp add: deleteBackup_def Let_def creatingRequest_def falsy_def g n down
          serviceUnavailable_def)
  from g n(1,2) a b show ?thesis by (simp add: errorResponse_def)
qed

text \<open>
  C7, amended. For a backup the caller owns from whose status DELETED is not a legal
  transition, after the adapter delete succeeds the store rejects the transition with
  \<open>InvalidTransition\<close> and leaves the table as it was; the handler answers HTTP 503
  "Service Unavailable", the same response as for an unavailable store.
\<close>

theorem C7_invalid_transition_is_503:
  assumes "user_email req = Some email" and "email \<noteq> []"
    and "params_id req = Some bid" and "bid \<noteq> []"
    and "find (\<lambda>b. backupId b = bid) st = Some b" and "userEmail b = email"
    and "\<not> isValidStatusTransition (JsString (status b)) ''DELETED''"
  shows "db_deleteBackup True now st bid = (Inl (InvalidTransition (status b) ''DELETED''), st) \<and>
         deleteBackup True None True now st req =
           (errorResponse 503 ''Service Unavailable'' ''Database service temporarily unavailable'',
            st,
            [DbGetBackupById bid, GcpDeleteMachineImage (gcpMachineImageName b),
             DbDeleteBackup bid]) \<and>
         statusCode (fst (deleteBackup True None True now st req)) = 503 \<and>
         fst (deleteBackup True None True now st req) =
           fst (deleteBackup True None False now st req)"
proof -
  have k: "''DELETED'' \<in> set statuses" by (simp add: statuses_def)
  have rej: "db_deleteBackup True now st bid = (Inl (InvalidTransition (status b) ''DELETED''), st)"
    using assms(5,7) k by (simp add: db_deleteBackup_def db_updateBackupStatus_def)
  have down: "db_deleteBackup False now st bid = (Inl DatabaseQueryFailed, st)"
    by (simp add: db_deleteBackup_def db_updateBackupStatus_def)
  have r1: "deleteBackup True None True now st req =
           (errorResponse 503 ''Service Unavailable'' ''Database service temporarily unavailable'',
            st,
            [DbGetBackupById bid, GcpDeleteMachineImage (gcpMachineImageName b),
             DbDeleteBackup bid])"
    using assms(1-6) by (simp add: deleteBackup_def Let_def falsy_def db_getBackupById_def rej
        serviceUnavailable_def)
  have r2: "fst (deleteBackup True None False now st req) =
           errorResponse 503 ''Service Unavailable'' ''Database service temporarily unavailable''"
    using assms(1-6) by (simp add: deleteBackup_def Let_def falsy_def db_getBackupById_def down
        serviceUnavailable_def)
  from rej r1 r2 show ?thesis by (simp add: errorResponse_def)
qed

theorem C7_invalid_transition_is_503_witness:
  "user_email creatingRequest = Some ''alice@example.com'' \<and>
   params_id creatingRequest = Some ''bak-2'' \<and>
   find (\<lambda>b. backupId b = ''bak-2'') sampleStore = Some newerBackup \<and>
   \<not> isValidStatusTransition (JsString (status newerBackup)) ''DELETED'' \<and>
   db_deleteBackup True 60000 sampleStore ''bak-2'' =
     (Inl (InvalidTransition (status newerBackup) ''DELETED''), sampleStore) \<and>
   statusCode (fst (deleteBackup True None True 60000 sampleStore creatingRequest)) = 503"
proof -
  have h: "user_email creatingRequest = Some ''alice@example.com''"
      "''alice@example.com'' \<noteq> []"
      "params_id creatingRequest = Some ''bak-2''" "''bak-2'' \<noteq> []"
      "find (\<lambda>b. backupId b = ''bak-2'') sampleStore = Some newerBackup"
      "userEmail newerBackup = ''alice@example.com''"
      "\<not> isValidStatusTransition (JsString (status newerBackup)) ''DELETED''"
    by (simp_all add: creatingRequest_def sampleStore_def sampleBackup_def newerBackup_def
          otherOwnersBackup_def deletedBackup_def isValidStatusTransition_string)
  from C7_invalid_transition_is_503[OF h, of 60000] h show ?thesis
    by (simp add: errorResponse_def)
qed

lemma sorted_listing:
  "sorted_wrt (\<lambda>a b. createdAt b \<le> createdAt a) (sort_key (\<lambda>b. - createdAt b) xs)"
proof -
  have "sorted (map (\<lambda>b. - createdAt b) (sort_key (\<lambda>b. - createdAt b) xs))"
    by (rule sorted_sort_key)
  then show ?thesis by (simp add: sorted_map)
qed

text \<open>
  C8. For an owner, the list operation returns exactly the rows of that owner whose
  status is not DELETED (as a multiset, hence none of another owner and none DELETED),
  ordered by \<open>createdAt\<close> descending.
\<close>

theorem C8_list_by_owner:
  assumes "user_email req = Some owner" and "owner \<noteq> []"
  shows "\<exists>bs. getBackups True st req = \<lparr>statusCode = 200, responseBody = BackupsBody bs\<rparr> \<and>
              db_getBackupsByUser True st owner = Inr bs \<and>
              mset bs = mset (filter (\<lambda>b. userEmail b = owner \<and> status b \<noteq> ''DELETED'') st) \<and>
              set bs = {b \<in> set st. userEmail b = owner \<and> status b \<noteq> ''DELETED''} \<and>
              sorted_wrt (\<lambda>a b. createdAt b \<le> createdAt a) bs"
proof -
  define bs where "bs = sort_key (\<lambda>b. - createdAt b)
                  (filter (\<lambda>b. userEmail b = owner \<and> status b \<noteq> ''DELETED'') st)"
  have q: "db_getBackupsByUser True st owner = Inr bs"
    by (simp add: db_getBackupsByUser_def bs_def)
  have r: "getBackups True st req = \<lparr>statusCode = 200, responseBody = BackupsBody bs\<rparr>"
    using assms by (simp add: getBackups_def falsy_def q)
  have m: "mset bs = mset (filter (\<lambda>b. userEmail b = owner \<and> status b \<noteq> ''DELETED'') st)"
    by (simp add: bs_def)
  have s: "set bs = {b \<in> set st. userEmail b = owner \<and> status b \<noteq> ''DELETED''}"
    by (auto simp: bs_def)
  have o: "sorted_wrt (\<lambda>a b. createdAt b \<le> createdAt a) bs"
    unfolding bs_def by (rule sorted_listing)
  from q r m s o show ?thesis by blast
qed

theorem C8_list_by_owner_witness:
  "user_email sampleRequest = Some ''alice@example.com'' \<and>
   getBackups True sampleStore sampleRequest =
     \<lparr>statusCode = 200, responseBody = BackupsBody [newerBackup, sampleBackup]\<rparr> \<and>
   set [newerBackup, sampleBackup] =
     {b \<in> set sampleStore. userEmail b = ''alice@example.com'' \<and> status b \<noteq> ''DELETED''} \<and>
   sorted_wrt (\<lambda>a b. createdAt b \<le> createdAt a) [newerBackup, sampleBackup]"
proof -
  have e: "user_email sampleRequest = Some ''alice@example.com''"
    by (simp add: sampleRequest_def)
  have ne: "''alice@example.com'' \<noteq> []" by simp
  have v: "getBackups True sampleStore sampleRequest =
     \<lparr>statusCode = 200, responseBody = BackupsBody [newerBackup, sampleBackup]\<rparr>"
    by (simp add: getBackups_def falsy_def sampleRequest_def db_getBackupsByUser_def
          sampleStore_def sampleBackup_def otherOwnersBackup_def deletedBackup_def
          newerBackup_def)
  from C8_list_by_owner[OF e ne, of sampleStore] obtain bs where
    r: "getBackups True sampleStore sampleRequest = \<lparr>statusCode = 200, responseBody = BackupsBody bs\<rparr>"
    and s: "set bs = {b \<in> set sampleStore. userEmail b = ''alice@example.com'' \<and> status b \<noteq> ''DELETED''}"
    and o: "sorted_wrt (\<lambda>a b. createdAt b \<le> createdAt a) bs"
    by blast
  from r v have "bs = [newerBackup, sampleBackup]" by simp
  with e v s o show ?thesis by blast
qed

lemma createBackup_rejected_name:
  assumes "\<not> falsy (user_email req)" and "\<not> falsy (body_instanceId req)"
    and "validateName (body_name req) = Inl r"
  shows "createBackup env st req = (r, st, None)"
  using assms by (simp add: createBackup_def)

lemma createBackup_created:
  assumes "createBackup env st req =
             (\<lparr>statusCode = 201, responseBody = CreatedBody msg created\<rparr>, st', job)"
  shows "\<exists>nm inst. validateName (body_name req) = Inr nm \<and> name created = trim nm \<and>
           st' = st @ [created] \<and> backupId created = newBackupId env \<and>
           status created = ''CREATING'' \<and> storageBytes created = None \<and>
           getInstanceById env (the (body_instanceId req)) = Inr (Some inst) \<and>
           job = Some (if isGcpManaged inst
                       then MachineImageJob (newBackupId env) (generatedImageName env)
                              (the (gcpInstanceId inst)) (the (gcpZone inst))
                       else DemoJob (newBackupId env) (demoDelay (delayRandom env)))"
proof -
  from assms obtain nm where nm: "validateName (body_name req) = Inr nm"
    by (cases "validateName (body_name req)")
       (auto simp: createBackup_def emailMissing_def badRequest_def errorResponse_def
          validateName_def split: if_splits name_value.splits)
  from assms nm obtain inst where inst:
      "getInstanceById env (the (body_instanceId req)) = Inr (Some inst)"
    by (auto simp: createBackup_def emailMissing_def badRequest_def errorResponse_def
          serviceUnavailable_def Let_def split: if_splits sum.splits option.splits)
  from assms nm inst show ?thesis
    by (auto simp: createBackup_def emailMissing_def badRequest_def errorResponse_def
          serviceUnavailable_def db_createBackup_def Let_def
          split: if_splits sum.splits)
qed

text \<open>
  C9, as stated, fails. The claim: every request whose name has raw length above 100 is
  rejected with "cannot exceed 100 characters", also when the trimmed length is at most
  100. A name of 101 spaces has raw length 101 and trimmed length 0; the check for a
  blank name comes first and the request is rejected with "cannot be empty".
\<close>

theorem C9_blank_name_counterexample:
  "length (replicate 101 (32::nat)) = 101 \<and> length (trim (replicate 101 32)) = 0 \<and>
   createBackup sampleEnv sampleStore (createRequest (replicate 101 32)) =
     (badRequest ''Backup name cannot be empty'', sampleStore, None) \<and>
   badRequest ''Backup name cannot be empty'' \<noteq>
     badRequest ''Backup name cannot exceed 100 characters''"
proof -
  have t: "trim (replicate 101 32) = []"
    by (simp add: trim_def isWhiteSpace_def)
  have c: "createBackup sampleEnv sampleStore (createRequest (replicate 101 32)) =
     (badRequest ''Backup name cannot be empty'', sampleStore, None)"
    by (simp add: createBackup_def createRequest_def falsy_def validateName_def t)
  have d: "badRequest ''Backup name cannot be empty'' \<noteq>
     badRequest ''Backup name cannot exceed 100 characters''"
    by (simp add: badRequest_def errorResponse_def)
  from t c d show ?thesis by simp
qed

text \<open>
  C9, amended. For a request that carries the user's email and an instance id, the name
  checks of \<open>createBackup\<close> run in the order empty after trim, longer than 100, invalid
  characters. The length checked is that of the raw string: a name that is not blank
  after trimming and has raw length above 100 is rejected with "cannot exceed 100
  characters" whatever its trimmed length, and a name that is blank after trimming is
  rejected with "cannot be empty" whatever its length. On acceptance the stored name is
  the trimmed string.
\<close>

theorem C9_name_checks:
  assumes "\<not> falsy (user_email req)" and "\<not> falsy (body_instanceId req)"
    and "body_name req = NameString nm"
  shows "(trim nm = [] \<longrightarrow>
            createBackup env st req = (badRequest ''Backup name cannot be empty'', st, None)) \<and>
         (trim nm \<noteq> [] \<and> length nm > 100 \<longrightarrow>
            createBackup env st req =
              (badRequest ''Backup name cannot exceed 100 characters'', st, None)) \<and>
         (trim nm \<noteq> [] \<and> length nm \<le> 100 \<and> list_ex invalidChar nm \<longrightarrow>
            createBackup env st req =
              (badRequest ''Backup name contains invalid characters'', st, None)) \<and>
         (\<forall>msg created st' job.
            createBackup env st req =
              (\<lparr>statusCode = 201, responseBody = CreatedBody msg created\<rparr>, st', job) \<longrightarrow>
            name created = trim nm \<and> length nm \<le> 100 \<and> st' = st @ [created])"
proof -
  have empty: "createBackup env st req =
      (badRequest ''Backup name cannot be empty'', st, None)" if "trim nm = []"
    by (rule createBackup_rejected_name[OF assms(1,2)])
       (simp add: validateName_def assms(3) that)
  have long: "createBackup env st req =
      (badRequest ''Backup name cannot exceed 100 characters'', st, None)"
    if "trim nm \<noteq> []" "length nm > 100"
    by (rule createBackup_rejected_name[OF assms(1,2)])
       (simp add: validateName_def assms(3) that)
  have chars: "createBackup env st req =
      (badRequest ''Backup name contains invalid characters'', st, None)"
    if "trim nm \<noteq> []" "length nm \<le> 100" "list_ex invalidChar nm"
    by (rule createBackup_rejected_name[OF assms(1,2)])
       (use that in \<open>simp add: validateName_def assms(3) invalidCharsRegex_test_def\<close>)
  have stored: "name created = trim nm \<and> length nm \<le> 100 \<and> st' = st @ [created]"
    if "createBackup env st req =
          (\<lparr>statusCode = 201, responseBody = CreatedBody msg created\<rparr>, st', job)"
    for msg created st' job
  proof -
    from createBackup_created[OF that] obtain nm' where
      v: "validateName (body_name req) = Inr nm'" and n: "name created = trim nm'"
      and s: "st' = st @ [created]" by blast
    from v have "nm' = nm \<and> length nm \<le> 100"
      by (auto simp: validateName_def assms(3) split: if_splits)
    with n s show ?thesis by simp
  qed
  from empty long chars stored show ?thesis by blast
qed

lemma dropWhile_replicate_append:
  "P x \<Longrightarrow> dropWhile P (replicate n x @ ys) = dropWhile P ys"
  by (induction n) simp_all

lemma isWhiteSpace_samples:
  "isWhiteSpace 32" "\<not> isWhiteSpace 64" "\<not> isWhiteSpace 97"
  by (simp_all add: isWhiteSpace_def)

lemma trim_paddedName: "trim paddedName = [97]"
  by (simp add: paddedName_def trim_def dropWhile_replicate_append isWhiteSpace_samples)

lemma demoDelay_samples:
  "demoDelay (Num 0) = Num 3000" "demoDelay (Num (1 / 2)) = Num 4000"
  "demoDelay (Num (4503599627370495 / 4503599627370496)) = Num 5000"
  by code_simp+

lemma sample_create:
  "createBackup sampleEnv sampleStore (createRequest spacedName) =
      (\<lparr>statusCode = 201, responseBody = CreatedBody
          ''Backup creation initiated. This may take several minutes to complete.''
          createdSample\<rparr>,
       sampleStore @ [createdSample], Some (DemoJob ''bak-9'' (Num 4000)))"
  by (simp add: createBackup_def createRequest_def falsy_def validateName_def trim_def
        isWhiteSpace_def spacedName_def invalidCharsRegex_test_def invalidChar_def
        sampleEnv_def sampleInstance_def isGcpManaged_def db_createBackup_def Let_def
        demoDelay_samples createdSample_def orDefault_def)

theorem C9_name_checks_witness:
  "length paddedName = 101 \<and> length (trim paddedName) = 1 \<and>
   createBackup sampleEnv sampleStore (createRequest paddedName) =
     (badRequest ''Backup name cannot exceed 100 characters'', sampleStore, None) \<and>
   createBackup sampleEnv sampleStore (createRequest (replicate 101 32)) =
     (badRequest ''Backup name cannot be empty'', sampleStore, None) \<and>
   createBackup sampleEnv sampleStore (createRequest (64 # paddedName)) =
     (badRequest ''Backup name cannot exceed 100 characters'', sampleStore, None) \<and>
   createBackup sampleEnv sampleStore (createRequest [64]) =
     (badRequest ''Backup name contains invalid characters'', sampleStore, None) \<and>
   createBackup sampleEnv sampleStore (createRequest spacedName) =
      (\<lparr>statusCode = 201, responseBody = CreatedBody
          ''Backup creation initiated. This may take several minutes to complete.''
          createdSample\<rparr>,
       sampleStore @ [createdSample], Some (DemoJob ''bak-9'' (Num 4000))) \<and>
   name createdSample = trim spacedName \<and> length spacedName = 9 \<and>
   length (name createdSample) = 7"
proof -
  have pre: "\<not> falsy (user_email (createRequest n))" "\<not> falsy (body_instanceId (createRequest n))"
    "body_name (createRequest n) = NameString n" for n
    by (simp_all add: createRequest_def falsy_def)
  have l1: "length paddedName = 101" by (simp add: paddedName_def)
  have l2: "length (trim paddedName) = 1" by (simp add: trim_paddedName)
  have l3: "trim paddedName \<noteq> [] \<and> length paddedName > 100"
    by (simp add: trim_paddedName l1)
  have e: "trim (replicate 101 32) = []"
    by (simp add: trim_def isWhiteSpace_samples)
  have a: "trim (64 # paddedName) \<noteq> [] \<and> length (64 # paddedName) > 100"
    by (simp add: paddedName_def trim_def dropWhile_replicate_append isWhiteSpace_samples)
  have c: "trim [64] \<noteq> [] \<and> length [64::nat] \<le> 100 \<and> list_ex invalidChar [64]"
    by (simp add: trim_def isWhiteSpace_samples invalidChar_def)
  have t: "length spacedName = 9" "length (name createdSample) = 7"
    by (simp_all add: spacedName_def createdSample_def)
  note at = C9_name_checks[OF pre, of _ sampleEnv sampleStore]
  from at[of paddedName] l3 have r1:
    "createBackup sampleEnv sampleStore (createRequest paddedName) =
     (badRequest ''Backup name cannot exceed 100 characters'', sampleStore, None)" by blast
  from at[of "replicate 101 32"] e have r2:
    "createBackup sampleEnv sampleStore (createRequest (replicate 101 32)) =
     (badRequest ''Backup name cannot be empty'', sampleStore, None)" by blast
  from at[of "64 # paddedName"] a have r3:
    "createBackup sampleEnv sampleStore (createRequest (64 # paddedName)) =
     (badRequest ''Backup name cannot exceed 100 characters'', sampleStore, None)" by blast
  from at[of "[64]"] c have r4:
    "createBackup sampleEnv sampleStore (createRequest [64]) =
     (badRequest ''Backup name contains invalid characters'', sampleStore, None)" by blast
  from at[of spacedName] sample_create have r5: "name createdSample = trim spacedName" by blast
  from l1 l2 r1 r2 r3 r4 sample_create r5 t show ?thesis by blast
qed



lemma created_sample_found:
  "find (\<lambda>b. backupId b = ''bak-9'') (sampleStore @ [createdSample]) = Some createdSample"
  by (simp add: sampleStore_def sampleBackup_def otherOwnersBackup_def deletedBackup_def
        newerBackup_def createdSample_def)


text \<open>
  For comparison, at \<open>Math.random() = 0.5\<close> the size is the whole number 30 * 2^30 and
  the same job completes the backup.
\<close>

lemma demo_job_whole_size:
  "simulatedStorageBytes (Num (1 / 2)) = Num 32212254720 \<and>
   (\<exists>u. find (\<lambda>b. backupId b = ''bak-9'')
          (runDemoJob True 75000 (Num (1 / 2)) (sampleStore @ [createdSample]) ''bak-9'') =
        Some u \<and>
        status u = ''COMPLETED'' \<and> updatedAt u = 75000 \<and> storageBytes u = Some 32212254720)"
proof -
  have a: "simulatedStorageBytes (Num (1 / 2)) = Num 32212254720"
    by code_simp
  have b: "storageBytesOf (Num 32212254720) = Some 32212254720"
    by (simp add: storageBytesOf_def)
  have v: "isValidStatusTransition (JsString (status createdSample)) ''COMPLETED''"
    by (simp add: createdSample_def isValidStatusTransition_string)
  from db_updateBackupStatus_accepted[OF created_sample_found v, of 75000
      "Some 32212254720" None]
  show ?thesis by (auto simp: runDemoJob_def db_updateBackupStatus_js_def a b)
qed

end
